theory Spec2Isabelle
  imports Complex_Main
begin

section \<open>JavaScript numbers and their decimal renderings\<close>

text \<open>
  The display components receive \<^verbatim>\<open>number\<close> values (IEEE doubles) from the parsed response.
  A number is modelled as a finite value, given by its exact rational value, one of the two
  infinities, or NaN. Negative zero is identified with zero (the two differ only as a
  divisor).
\<close>

datatype jsnum = Fin rat | PInf | NInf | NaN

text \<open>
  Two conversions of the language are not fixed by the exact value of a number in a way
  that this model spells out. They are parameters of the model:
  \<^item> \<open>numstr\<close>: the digits by which \<^verbatim>\<open>Number::toString\<close> writes a positive finite value
    that is not an integer up to \<open>2^53\<close>, the shortest ones that read back as the same
    double;
  \<^item> \<open>str_to_num\<close>: the number that a string converts to (\<^verbatim>\<open>StringToNumber\<close>), used
    where a string is compared with a number.
\<close>

record js_runtime =
  numstr :: "rat \<Rightarrow> string"
  str_to_num :: "string \<Rightarrow> jsnum"

text \<open>The relational operators \<^verbatim>\<open>>\<close>, \<^verbatim>\<open>>=\<close> and \<^verbatim>\<open><\<close>: false whenever an operand is NaN.\<close>

fun js_gt :: "jsnum \<Rightarrow> jsnum \<Rightarrow> bool" where
  "js_gt NaN _ = False"
| "js_gt _ NaN = False"
| "js_gt (Fin a) (Fin b) = (a > b)"
| "js_gt PInf PInf = False"
| "js_gt PInf _ = True"
| "js_gt _ PInf = False"
| "js_gt NInf _ = False"
| "js_gt (Fin a) NInf = True"

fun js_ge :: "jsnum \<Rightarrow> jsnum \<Rightarrow> bool" where
  "js_ge NaN _ = False"
| "js_ge _ NaN = False"
| "js_ge a b = (a = b \<or> js_gt a b)"

fun js_lt :: "jsnum \<Rightarrow> jsnum \<Rightarrow> bool" where
  "js_lt a b = js_gt b a"

text \<open>
  The result of an arithmetic operation on finite doubles is the exact result rounded to
  the nearest double, to the one with the even significand of two that are equally near
  (IEEE 754, binary64). For a magnitude \<open>a\<close> with \<open>2^e \<le> a < 2^(e+1)\<close> the doubles around
  \<open>a\<close> are the multiples of \<open>2^(e-52)\<close>; below \<open>2^-1022\<close> they are the multiples of
  \<open>2^-1074\<close>; a result that rounds to \<open>2^1024\<close> or more is an infinity, which can
  happen from \<open>e = 1023\<close> on only.
\<close>

function ilog2_up :: "rat \<Rightarrow> nat" where
  "ilog2_up x = (if x < 2 then 0 else Suc (ilog2_up (x / 2)))"
  by pat_completeness auto
termination
proof (relation "measure (\<lambda>x. nat \<lfloor>x\<rfloor>)")
  show "wf (measure (\<lambda>x :: rat. nat \<lfloor>x\<rfloor>))" by simp
next
  fix x :: rat
  assume "\<not> x < 2"
  then have "\<lfloor>x / 2\<rfloor> < \<lfloor>x\<rfloor>" and "0 < \<lfloor>x\<rfloor>" by linarith+
  then show "(x / 2, x) \<in> measure (\<lambda>x. nat \<lfloor>x\<rfloor>)" by simp
qed

declare ilog2_up.simps [simp del]

text \<open>The exponent \<open>e\<close> with \<open>2^e \<le> a < 2^(e+1)\<close>, for \<open>a > 0\<close>.\<close>

definition ilog2 :: "rat \<Rightarrow> int" where
  "ilog2 a =
     (if 1 \<le> a then int (ilog2_up a)
      else (let k = ilog2_up (1 / a)
            in if 1 / a = 2 ^ k then - int k else - int k - 1))"

definition round_half_even :: "rat \<Rightarrow> int" where
  "round_half_even x =
     (let f = \<lfloor>x\<rfloor>; d = x - of_int f
      in if d < 1 / 2 then f
         else if 1 / 2 < d then f + 1
         else if even f then f else f + 1)"

definition nearest_double :: "rat \<Rightarrow> jsnum" where
  "nearest_double x =
     (if x = 0 then Fin 0
      else (let a = \<bar>x\<bar>;
                e = max (ilog2 a) (- 1022);
                u = 2 powi (e - 52);
                y = of_int (round_half_even (a / u)) * u
            in if e < 1023 then Fin (if 0 < x then y else - y)
               else if 2 ^ 1024 \<le> y then (if 0 < x then PInf else NInf)
               else Fin (if 0 < x then y else - y)))"

text \<open>Multiplication and division, with the IEEE results at zero and at the infinities.\<close>

fun js_mul :: "jsnum \<Rightarrow> jsnum \<Rightarrow> jsnum" where
  "js_mul NaN _ = NaN"
| "js_mul _ NaN = NaN"
| "js_mul (Fin a) (Fin b) = nearest_double (a * b)"
| "js_mul (Fin a) PInf = (if a = 0 then NaN else if a > 0 then PInf else NInf)"
| "js_mul (Fin a) NInf = (if a = 0 then NaN else if a > 0 then NInf else PInf)"
| "js_mul PInf (Fin b) = (if b = 0 then NaN else if b > 0 then PInf else NInf)"
| "js_mul NInf (Fin b) = (if b = 0 then NaN else if b > 0 then NInf else PInf)"
| "js_mul PInf PInf = PInf"
| "js_mul PInf NInf = NInf"
| "js_mul NInf PInf = NInf"
| "js_mul NInf NInf = PInf"

fun js_div :: "jsnum \<Rightarrow> jsnum \<Rightarrow> jsnum" where
  "js_div NaN _ = NaN"
| "js_div _ NaN = NaN"
| "js_div (Fin a) (Fin b) =
     (if b = 0 then (if a = 0 then NaN else if a > 0 then PInf else NInf)
      else nearest_double (a / b))"
| "js_div (Fin a) PInf = Fin 0"
| "js_div (Fin a) NInf = Fin 0"
| "js_div PInf (Fin b) = (if b \<ge> 0 then PInf else NInf)"
| "js_div NInf (Fin b) = (if b \<ge> 0 then NInf else PInf)"
| "js_div PInf _ = NaN"
| "js_div NInf _ = NaN"

text \<open>The decimal digits of a natural number.\<close>

definition digit_char :: "nat \<Rightarrow> char" where
  "digit_char d = ''0123456789'' ! d"

function show_nat :: "nat \<Rightarrow> string" where
  "show_nat n = (if n < 10 then [digit_char n] else show_nat (n div 10) @ [digit_char (n mod 10)])"
  by pat_completeness auto
termination
  by (relation "measure id") auto

declare show_nat.simps [simp del]

text \<open>
  \<^verbatim>\<open>Number::toString\<close> in radix 10. An integer up to \<open>2^53\<close> is written with its decimal
  digits; every other positive finite value as \<open>numstr\<close> has it.
\<close>

definition pos_toString :: "js_runtime \<Rightarrow> rat \<Rightarrow> string" where
  "pos_toString rt r =
     (if r = of_int \<lfloor>r\<rfloor> \<and> r \<le> 2 ^ 53 then show_nat (nat \<lfloor>r\<rfloor>) else numstr rt r)"

fun Number_toString :: "js_runtime \<Rightarrow> jsnum \<Rightarrow> string" where
  "Number_toString rt NaN = ''NaN''"
| "Number_toString rt PInf = ''Infinity''"
| "Number_toString rt NInf = ''-Infinity''"
| "Number_toString rt (Fin r) =
     (if r < 0 then ''-'' @ pos_toString rt (- r) else pos_toString rt r)"

text \<open>
  \<^verbatim>\<open>Number.prototype.toFixed(f)\<close>, for \<open>0 \<le> f \<le> 100\<close>, step by step as the language
  standard has it: a value that is not finite is converted by \<^verbatim>\<open>Number::toString\<close>; the
  sign is split off; from \<open>10^21\<close> on the magnitude is converted by \<^verbatim>\<open>Number::toString\<close>;
  otherwise \<open>n\<close> is the integer for which \<open>n / 10^f\<close> is nearest to the magnitude, the larger
  one of two, its digits are padded with zeros on the left to \<open>f + 1\<close> digits, and the
  point is put before the last \<open>f\<close> digits.
\<close>

definition toFixed_n :: "nat \<Rightarrow> rat \<Rightarrow> nat" where
  "toFixed_n f x = nat \<lfloor>x * 10 ^ f + 1 / 2\<rfloor>"

definition toFixed_digits :: "nat \<Rightarrow> nat \<Rightarrow> string" where
  "toFixed_digits f n =
     (let m = show_nat n in
      if f \<noteq> 0 then
        (let m' = (if length m \<le> f then replicate (f + 1 - length m) (CHR ''0'') @ m else m);
             k = length m'
         in take (k - f) m' @ ''.'' @ drop (k - f) m')
      else m)"

fun toFixed :: "js_runtime \<Rightarrow> nat \<Rightarrow> jsnum \<Rightarrow> string" where
  "toFixed rt f (Fin x) =
     (let s = (if x < 0 then ''-'' else '''');
          x' = (if x < 0 then - x else x)
      in if x' \<ge> 10 ^ 21 then s @ Number_toString rt (Fin x')
         else s @ toFixed_digits f (toFixed_n f x'))"
| "toFixed rt f x = Number_toString rt x"

section \<open>The formatters of the metric displays\<close>

text \<open>
  \<^verbatim>\<open>formatOdds\<close> (the same function in DeathMetricsDisplay, PlayerMetricsDisplay,
  AvoidableDamageDisplay and PerformanceDisplay):
  \<^verbatim>\<open>
  const [over, under] = odds;
  return { over: over > 0 ? `+${over}` : over, under: under > 0 ? `+${under}` : under };
  \<close>
  Each field of the result is a string or the number itself.
\<close>

datatype string_or_number = Str string | Num jsnum

record formatted_odds =
  over :: string_or_number
  under :: string_or_number

definition formatOdds :: "js_runtime \<Rightarrow> jsnum \<times> jsnum \<Rightarrow> formatted_odds" where
  "formatOdds rt odds =
     (case odds of (over', under') \<Rightarrow>
        \<lparr> over = (if js_gt over' (Fin 0) then Str (''+'' @ Number_toString rt over') else Num over'),
          under = (if js_gt under' (Fin 0) then Str (''+'' @ Number_toString rt under') else Num under') \<rparr>)"

text \<open>
  The text a JSX child \<^verbatim>\<open>{formatOdds(odds).over}\<close> puts on the page: a string as it is, a
  number by its string conversion.
\<close>

fun renderChild :: "js_runtime \<Rightarrow> string_or_number \<Rightarrow> string" where
  "renderChild rt (Str s) = s"
| "renderChild rt (Num n) = Number_toString rt n"

text \<open>
  \<^verbatim>\<open>formatNumber\<close> of AvoidableDamageDisplay:
  \<^verbatim>\<open>
  if (num >= 1000000) return `${(num / 1000000).toFixed(1)}M`;
  if (num >= 1000)    return `${(num / 1000).toFixed(1)}K`;
  return num.toFixed(0);
  \<close>
\<close>

definition formatNumber :: "js_runtime \<Rightarrow> jsnum \<Rightarrow> string" where
  "formatNumber rt num =
     (if js_ge num (Fin 1000000) then toFixed rt 1 (js_div num (Fin 1000000)) @ ''M''
      else if js_ge num (Fin 1000) then toFixed rt 1 (js_div num (Fin 1000)) @ ''K''
      else toFixed rt 0 num)"

text \<open>\<^verbatim>\<open>formatPercentage\<close> of PerformanceDisplay: \<^verbatim>\<open>`${(value * 100).toFixed(1)}%`\<close>.\<close>

definition formatPercentage :: "js_runtime \<Rightarrow> jsnum \<Rightarrow> string" where
  "formatPercentage rt v = toFixed rt 1 (js_mul v (Fin 100)) @ ''%''"

text \<open>
  \<^verbatim>\<open>formatValue\<close> of DeathMetricsDisplay:
  \<^verbatim>\<open>
  if (value < 1) return `${(value * 100).toFixed(1)}%`;
  return value.toFixed(2);
  \<close>
\<close>

definition formatValue :: "js_runtime \<Rightarrow> jsnum \<Rightarrow> string" where
  "formatValue rt v =
     (if js_lt v (Fin 1) then toFixed rt 1 (js_mul v (Fin 100)) @ ''%''
      else toFixed rt 2 v)"

text \<open>
  The per-report success rate of MetricsLayout:
  \<^verbatim>\<open>Success Rate: {((report.kills / report.total_fights) * 100).toFixed(1)}%\<close>
\<close>

record report =
  title :: string
  date :: string
  zone :: string
  total_fights :: jsnum
  kills :: jsnum

definition successRate :: "js_runtime \<Rightarrow> report \<Rightarrow> string" where
  "successRate rt r =
     toFixed rt 1 (js_mul (js_div (kills r) (total_fights r)) (Fin 100)) @ ''%''"

text \<open>
  The runtime of the closed examples. It writes \<open>10^21\<close> as \<open>1e+21\<close>, as the language
  does, and \<open>?\<close> for every other number whose digits the model leaves open; it converts
  every string to NaN. The examples consult it at \<open>10^21\<close> only.
\<close>

definition sample_runtime :: js_runtime where
  "sample_runtime =
     \<lparr>numstr = (\<lambda>r. if r = 10 ^ 21 then ''1e+21'' else ''?''), str_to_num = (\<lambda>s. NaN)\<rparr>"

section \<open>Strings, lower-casing and percent-encoding\<close>

text \<open>
  A JavaScript string is modelled as the list of its code units, for code units below 256:
  a \<^typ>\<open>char\<close> stands for the code point of the same number.

  \<^verbatim>\<open>String.prototype.toLowerCase\<close> maps \<open>A\<close> to \<open>Z\<close> and the capital letters of the
  Latin-1 block (U+00C0 to U+00DE, the multiplication sign U+00D7 apart) to the letter 32
  places on; every other code point below 256 is its own lower case.
\<close>

definition toLowerCase_char :: "char \<Rightarrow> char" where
  "toLowerCase_char c =
     (let n = (of_char c :: nat)
      in if (65 \<le> n \<and> n \<le> 90) \<or> (192 \<le> n \<and> n \<le> 222 \<and> n \<noteq> 215)
         then char_of (n + 32) else c)"

definition toLowerCase :: "string \<Rightarrow> string" where
  "toLowerCase s = map toLowerCase_char s"

text \<open>
  \<^verbatim>\<open>encodeURIComponent\<close>: the letters, the digits and \<^verbatim>\<open>- _ . ! ~ * ' ( )\<close> stay; every
  other code point is replaced by the bytes of its UTF-8 encoding, each written as \<open>%\<close>
  and two upper-case hexadecimal digits. A code point below 128 is one byte, one from 128
  to 255 is two.
\<close>

definition uriUnescaped :: "char \<Rightarrow> bool" where
  "uriUnescaped c =
     (c \<in> set ''ABCDEFGHIJKLMNOPQRSTUVWXYZabcdefghijklmnopqrstuvwxyz0123456789-_.!~*()''
      \<or> c = CHR 0x27)"

definition hex_char :: "nat \<Rightarrow> char" where
  "hex_char d = ''0123456789ABCDEF'' ! d"

definition percent_byte :: "nat \<Rightarrow> string" where
  "percent_byte b = [CHR ''%'', hex_char (b div 16), hex_char (b mod 16)]"

definition utf8_bytes :: "char \<Rightarrow> nat list" where
  "utf8_bytes c =
     (let n = (of_char c :: nat)
      in if n < 128 then [n] else [192 + n div 64, 128 + n mod 64])"

definition encodeURIComponent :: "string \<Rightarrow> string" where
  "encodeURIComponent s =
     concat (map (\<lambda>c. if uriUnescaped c then [c] else concat (map percent_byte (utf8_bytes c))) s)"

section \<open>Parsed response bodies\<close>

text \<open>
  The values that \<^verbatim>\<open>response.json()\<close> produces and that property reads yield: the JSON
  values and \<^verbatim>\<open>undefined\<close>. An object is the list of its members in the order of the
  text; of two members with the same name the later one counts.
\<close>

datatype json =
    JUndefined
  | JNull
  | JBool bool
  | JNum jsnum
  | JStr string
  | JArr "json list"
  | JObj "(string \<times> json) list"

text \<open>What a rejected promise or a \<^verbatim>\<open>throw\<close> carries: an \<^verbatim>\<open>Error\<close> object with its
  message, or a value that is not an \<^verbatim>\<open>Error\<close>.\<close>

datatype thrown = ErrorObject string | OtherValue

text \<open>The truth value of a value in a condition, \<^verbatim>\<open>||\<close> or \<^verbatim>\<open>&&\<close>.\<close>

fun truthy :: "json \<Rightarrow> bool" where
  "truthy JUndefined = False"
| "truthy JNull = False"
| "truthy (JBool b) = b"
| "truthy (JNum n) = (n \<noteq> Fin 0 \<and> n \<noteq> NaN)"
| "truthy (JStr s) = (s \<noteq> [])"
| "truthy (JArr xs) = True"
| "truthy (JObj kvs) = True"

text \<open>
  The property read \<^verbatim>\<open>v.name\<close>, for the names the components read (\<^verbatim>\<open>detail\<close>,
  \<^verbatim>\<open>cooldown_usage\<close>, \<^verbatim>\<open>fight_execution\<close>, \<^verbatim>\<open>odds\<close>: none of them is a property of a
  built-in prototype). On \<^verbatim>\<open>undefined\<close> and \<^verbatim>\<open>null\<close> it throws a TypeError, whose
  message is written here as V8 words it; on an object it is the member of that name, or
  \<^verbatim>\<open>undefined\<close>; on every other value it is \<^verbatim>\<open>undefined\<close>.
\<close>

definition cannot_read :: "string \<Rightarrow> string \<Rightarrow> thrown" where
  "cannot_read what name =
     ErrorObject (''Cannot read properties of '' @ what @ '' (reading '' @ [CHR 0x27] @ name @ [CHR 0x27] @ '')'')"

fun get_field :: "json \<Rightarrow> string \<Rightarrow> thrown + json" where
  "get_field JUndefined name = Inl (cannot_read ''undefined'' name)"
| "get_field JNull name = Inl (cannot_read ''null'' name)"
| "get_field (JObj kvs) name =
     Inr (case map_of (rev kvs) name of None \<Rightarrow> JUndefined | Some v \<Rightarrow> v)"
| "get_field v name = Inr JUndefined"

text \<open>
  The string conversion of a value, as \<^verbatim>\<open>new Error(v)\<close> applies it to its argument. An
  array is its elements joined by commas, with \<^verbatim>\<open>null\<close> and \<^verbatim>\<open>undefined\<close> elements
  left empty. An object is \<^verbatim>\<open>[object Object]\<close>, the result of the \<^verbatim>\<open>toString\<close> it
  inherits; an object with a member of its own named \<^verbatim>\<open>toString\<close> (a parsed value, never
  a function) has no conversion, and a TypeError is thrown.
\<close>

fun join_comma :: "string list \<Rightarrow> string" where
  "join_comma [] = []"
| "join_comma [s] = s"
| "join_comma (s # t # ss) = s @ '','' @ join_comma (t # ss)"

fun all_converted :: "(thrown + string) list \<Rightarrow> thrown + string list" where
  "all_converted [] = Inr []"
| "all_converted (Inl err # rs) = Inl err"
| "all_converted (Inr s # rs) =
     (case all_converted rs of Inl err \<Rightarrow> Inl err | Inr ss \<Rightarrow> Inr (s # ss))"

fun js_toString :: "js_runtime \<Rightarrow> json \<Rightarrow> thrown + string" where
  "js_toString rt JUndefined = Inr ''undefined''"
| "js_toString rt JNull = Inr ''null''"
| "js_toString rt (JBool b) = Inr (if b then ''true'' else ''false'')"
| "js_toString rt (JNum n) = Inr (Number_toString rt n)"
| "js_toString rt (JStr s) = Inr s"
| "js_toString rt (JArr xs) =
     (case all_converted
             (map (\<lambda>x. if x = JUndefined \<or> x = JNull then Inr [] else js_toString rt x) xs) of
        Inl err \<Rightarrow> Inl err
      | Inr ss \<Rightarrow> Inr (join_comma ss))"
| "js_toString rt (JObj kvs) =
     (if ''toString'' \<in> set (map fst kvs)
      then Inl (ErrorObject ''Cannot convert object to primitive value'')
      else Inr ''[object Object]'')"

section \<open>The search form and the page state\<close>

text \<open>
  Both search components keep the same five form fields. The state that a search
  reads and writes is, for \<^verbatim>\<open>SearchPage/index.tsx\<close>, the state of the page that mounts it
  (\<^verbatim>\<open>Home\<close> of \<^verbatim>\<open>page.tsx\<close>: \<^verbatim>\<open>searchResults\<close>, \<^verbatim>\<open>isLoading\<close>, \<^verbatim>\<open>error\<close>, reached through
  the props \<^verbatim>\<open>onSearchComplete\<close>, \<^verbatim>\<open>setLoading\<close>, \<^verbatim>\<open>setError\<close>) together with the form's own
  \<^verbatim>\<open>localLoading\<close> and \<^verbatim>\<open>localError\<close>; for the self-contained \<^verbatim>\<open>SearchPage.tsx\<close> it is the
  component's own \<^verbatim>\<open>searchResults\<close>, \<^verbatim>\<open>error\<close> and \<^verbatim>\<open>loading\<close>. The initial result is
  \<^verbatim>\<open>null\<close>.
\<close>

datatype search_type = player | guild

record form_fields =
  searchType :: search_type
  characterName :: string
  serverName :: string
  region :: string
  version :: string

record search_state = form_fields +
  searchResults :: json
  error :: string

record page = search_state +
  isLoading :: bool
  localLoading :: bool
  localError :: string

record standalone = search_state +
  loading :: bool

text \<open>
  What a request comes to. \<^verbatim>\<open>fetch(url)\<close> rejects, or resolves to a response with a
  status; \<^verbatim>\<open>response.ok\<close> holds for the statuses 200 to 299. \<^verbatim>\<open>response.json()\<close> rejects
  (the body is not JSON, or cannot be read), or resolves to the parsed value.
\<close>

datatype body = BodyRejected thrown | BodyJson json

datatype fetch_result = FetchRejected thrown | Response nat body

definition ok :: "nat \<Rightarrow> bool" where
  "ok status = (200 \<le> status \<and> status \<le> 299)"

subsection \<open>\<^verbatim>\<open>handleSearch\<close> of \<^verbatim>\<open>SearchPage/index.tsx\<close>\<close>

text \<open>
  \<^verbatim>\<open>
  const url = searchType === 'player'
    ? `/api/v1/player/${region}/${encodeURIComponent(serverName.toLowerCase())}/${encodeURIComponent(characterName.toLowerCase())}?version=${version}`
    : `/api/v1/guild/${region}/${encodeURIComponent(serverName.toLowerCase())}/${encodeURIComponent(characterName.toLowerCase())}`;
  \<close>
\<close>

definition handleSearch_url :: "'a form_fields_scheme \<Rightarrow> string" where
  "handleSearch_url f =
     (if searchType f = player
      then ''/api/v1/player/'' @ region f @ ''/'' @ encodeURIComponent (toLowerCase (serverName f))
           @ ''/'' @ encodeURIComponent (toLowerCase (characterName f)) @ ''?version='' @ version f
      else ''/api/v1/guild/'' @ region f @ ''/'' @ encodeURIComponent (toLowerCase (serverName f))
           @ ''/'' @ encodeURIComponent (toLowerCase (characterName f)))"

text \<open>
  An asynchronous function runs up to its first \<^verbatim>\<open>await\<close> within the call, and the rest
  when the awaited promises settle. \<^verbatim>\<open>handleSearch_submit\<close> is the first part: it returns
  the new state and the URL passed to \<^verbatim>\<open>fetch\<close>, if \<^verbatim>\<open>fetch\<close> was called.
  \<^verbatim>\<open>
  if (!characterName || !serverName) {
    setLocalError('Please fill in all required fields');
    return;
  }
  setLocalError(''); setError(''); setLoading(true); setLocalLoading(true);
  try { const url = ...; const response = await fetch(url);
  \<close>
\<close>

definition handleSearch_submit :: "page \<Rightarrow> page \<times> string option" where
  "handleSearch_submit p =
     (if characterName p = [] \<or> serverName p = []
      then (p\<lparr>localError := ''Please fill in all required fields''\<rparr>, None)
      else (p\<lparr>localError := [], error := [], isLoading := True, localLoading := True\<rparr>,
            Some (handleSearch_url p)))"

text \<open>\<^verbatim>\<open>handleSearchComplete\<close> of \<^verbatim>\<open>page.tsx\<close>, passed as \<^verbatim>\<open>onSearchComplete\<close>:
  \<^verbatim>\<open>setSearchResults(data)\<close>.\<close>

definition handleSearchComplete :: "json \<Rightarrow> page \<Rightarrow> page" where
  "handleSearchComplete data p = p\<lparr>searchResults := data\<rparr>"

text \<open>
  The handler of the \<^verbatim>\<open>catch\<close> clause and the \<^verbatim>\<open>finally\<close> clause:
  \<^verbatim>\<open>
  } catch (err) {
    setError(err instanceof Error ? err.message : 'Unknown error occurred');
    onSearchComplete(null);
  } finally {
    setLoading(false); setLocalLoading(false);
  }
  \<close>
\<close>

definition handleSearch_catch :: "thrown \<Rightarrow> page \<Rightarrow> page" where
  "handleSearch_catch err p =
     handleSearchComplete JNull
       (p\<lparr>error := (case err of ErrorObject message \<Rightarrow> message
                               | OtherValue \<Rightarrow> ''Unknown error occurred'')\<rparr>)"

definition handleSearch_finally :: "page \<Rightarrow> page" where
  "handleSearch_finally p = p\<lparr>isLoading := False, localLoading := False\<rparr>"

text \<open>
  The second part, run on the state of the moment when the request has come to its
  result:
  \<^verbatim>\<open>
  const response = await fetch(url);
  const data = await response.json();
  if (!response.ok) { throw new Error(data.detail || 'Failed to fetch data'); }
  onSearchComplete(data);
  \<close>
\<close>

definition handleSearch_settle :: "js_runtime \<Rightarrow> fetch_result \<Rightarrow> page \<Rightarrow> page" where
  "handleSearch_settle rt r p =
     handleSearch_finally
       (case r of
          FetchRejected err \<Rightarrow> handleSearch_catch err p
        | Response status b \<Rightarrow>
            (case b of
               BodyRejected err \<Rightarrow> handleSearch_catch err p
             | BodyJson data \<Rightarrow>
                 if \<not> ok status then
                   (case get_field data ''detail'' of
                      Inl err \<Rightarrow> handleSearch_catch err p
                    | Inr detail \<Rightarrow>
                        (case js_toString rt
                                (if truthy detail then detail else JStr ''Failed to fetch data'') of
                           Inl err \<Rightarrow> handleSearch_catch err p
                         | Inr message \<Rightarrow> handleSearch_catch (ErrorObject message) p))
                 else handleSearchComplete data p))"

subsection \<open>\<^verbatim>\<open>handleSearch\<close> of \<^verbatim>\<open>SearchPage.tsx\<close>\<close>

text \<open>
  \<^verbatim>\<open>
  const url = searchType === 'player'
    ? `/api/v1/player/${region}/${serverName.toLowerCase()}/${characterName.toLowerCase()}?version=${version}`
    : `/api/v1/guild/${region}/${serverName.toLowerCase()}/${characterName.toLowerCase()}`;
  \<close>
\<close>

definition standalone_url :: "'a form_fields_scheme \<Rightarrow> string" where
  "standalone_url f =
     (if searchType f = player
      then ''/api/v1/player/'' @ region f @ ''/'' @ toLowerCase (serverName f)
           @ ''/'' @ toLowerCase (characterName f) @ ''?version='' @ version f
      else ''/api/v1/guild/'' @ region f @ ''/'' @ toLowerCase (serverName f)
           @ ''/'' @ toLowerCase (characterName f))"

text \<open>
  \<^verbatim>\<open>
  setError(''); setSearchResults(null);
  if (!characterName || !serverName) {
    setError('Please enter both name and server');
    return;
  }
  setLoading(true);
  try { const url = ...; const response = await fetch(url);
  \<close>
\<close>

definition standalone_submit :: "standalone \<Rightarrow> standalone \<times> string option" where
  "standalone_submit s =
     (let s1 = s\<lparr>error := [], searchResults := JNull\<rparr>
      in if characterName s = [] \<or> serverName s = []
         then (s1\<lparr>error := ''Please enter both name and server''\<rparr>, None)
         else (s1\<lparr>loading := True\<rparr>, Some (standalone_url s)))"

text \<open>
  \<^verbatim>\<open>
  } catch (err) {
    setError(err instanceof Error ? err.message : 'Error fetching data');
  } finally {
    setLoading(false);
  }
  \<close>
\<close>

definition standalone_catch :: "thrown \<Rightarrow> standalone \<Rightarrow> standalone" where
  "standalone_catch err s =
     s\<lparr>error := (case err of ErrorObject message \<Rightarrow> message
                            | OtherValue \<Rightarrow> ''Error fetching data'')\<rparr>"

definition standalone_finally :: "standalone \<Rightarrow> standalone" where
  "standalone_finally s = s\<lparr>loading := False\<rparr>"

text \<open>
  \<^verbatim>\<open>
  const response = await fetch(url);
  if (!response.ok) {
    const errorData = await response.json();
    throw new Error(errorData.detail || 'Failed to fetch data');
  }
  const data = await response.json();
  setSearchResults(data);
  \<close>
\<close>

definition standalone_settle :: "js_runtime \<Rightarrow> fetch_result \<Rightarrow> standalone \<Rightarrow> standalone" where
  "standalone_settle rt r s =
     standalone_finally
       (case r of
          FetchRejected err \<Rightarrow> standalone_catch err s
        | Response status b \<Rightarrow>
            if \<not> ok status then
              (case b of
                 BodyRejected err \<Rightarrow> standalone_catch err s
               | BodyJson errorData \<Rightarrow>
                   (case get_field errorData ''detail'' of
                      Inl err \<Rightarrow> standalone_catch err s
                    | Inr detail \<Rightarrow>
                        (case js_toString rt
                                (if truthy detail then detail else JStr ''Failed to fetch data'') of
                           Inl err \<Rightarrow> standalone_catch err s
                         | Inr message \<Rightarrow> standalone_catch (ErrorObject message) s)))
            else
              (case b of
                 BodyRejected err \<Rightarrow> standalone_catch err s
               | BodyJson data \<Rightarrow> s\<lparr>searchResults := data\<rparr>))"

subsection \<open>Searches in flight\<close>

text \<open>
  The page of \<^verbatim>\<open>page.tsx\<close> with the form of \<^verbatim>\<open>SearchPage/index.tsx\<close>, whose props it
  passes, run by the event loop: every call of a handler and every continuation of an
  \<^verbatim>\<open>await\<close> runs to its end before the next one starts. \<^verbatim>\<open>requests\<close> lists the URLs
  passed to \<^verbatim>\<open>fetch\<close>, in order; \<^verbatim>\<open>inflight\<close> holds the positions of those that have not
  come to their result yet. An event is a change of a form field, a submit of the form,
  or the result of request number \<open>i\<close>, which is possible only while that request is in
  flight. The only submit button of the form is rendered with
  \<^verbatim>\<open>disabled={localLoading}\<close>, and a form whose submit button is disabled is submitted
  neither by a click nor by the Enter key: a submit is possible only while
  \<^verbatim>\<open>localLoading\<close> is false, and then it is a call of \<^verbatim>\<open>handleSearch\<close>.
\<close>

record world =
  ui :: page
  requests :: "string list"
  inflight :: "nat list"

datatype event =
    SetSearchType search_type
  | SetCharacterName string
  | SetServerName string
  | SetRegion string
  | SetVersion string
  | Submit
  | Settle nat fetch_result

fun step :: "js_runtime \<Rightarrow> event \<Rightarrow> world \<Rightarrow> world option" where
  "step rt (SetSearchType t) w = Some (w\<lparr>ui := (ui w)\<lparr>searchType := t\<rparr>\<rparr>)"
| "step rt (SetCharacterName n) w = Some (w\<lparr>ui := (ui w)\<lparr>characterName := n\<rparr>\<rparr>)"
| "step rt (SetServerName n) w = Some (w\<lparr>ui := (ui w)\<lparr>serverName := n\<rparr>\<rparr>)"
| "step rt (SetRegion r) w = Some (w\<lparr>ui := (ui w)\<lparr>region := r\<rparr>\<rparr>)"
| "step rt (SetVersion v) w = Some (w\<lparr>ui := (ui w)\<lparr>version := v\<rparr>\<rparr>)"
| "step rt Submit w =
     (if localLoading (ui w) then None
      else (case handleSearch_submit (ui w) of
              (p, None) \<Rightarrow> Some (w\<lparr>ui := p\<rparr>)
            | (p, Some url) \<Rightarrow>
                Some (w\<lparr>ui := p, requests := requests w @ [url],
                        inflight := inflight w @ [length (requests w)]\<rparr>)))"
| "step rt (Settle i r) w =
     (if i \<in> set (inflight w)
      then Some (w\<lparr>ui := handleSearch_settle rt r (ui w), inflight := removeAll i (inflight w)\<rparr>)
      else None)"

fun run :: "js_runtime \<Rightarrow> event list \<Rightarrow> world \<Rightarrow> world option" where
  "run rt [] w = Some w"
| "run rt (e # es) w = (case step rt e w of None \<Rightarrow> None | Some w' \<Rightarrow> run rt es w')"

text \<open>
  The same for the self-contained \<^verbatim>\<open>SearchPage.tsx\<close>, whose submit button is rendered with
  \<^verbatim>\<open>disabled={loading}\<close>.
\<close>

record standalone_world =
  standalone_ui :: standalone
  standalone_requests :: "string list"
  standalone_inflight :: "nat list"

fun standalone_step :: "js_runtime \<Rightarrow> event \<Rightarrow> standalone_world \<Rightarrow> standalone_world option" where
  "standalone_step rt (SetSearchType t) w =
     Some (w\<lparr>standalone_ui := (standalone_ui w)\<lparr>searchType := t\<rparr>\<rparr>)"
| "standalone_step rt (SetCharacterName n) w =
     Some (w\<lparr>standalone_ui := (standalone_ui w)\<lparr>characterName := n\<rparr>\<rparr>)"
| "standalone_step rt (SetServerName n) w =
     Some (w\<lparr>standalone_ui := (standalone_ui w)\<lparr>serverName := n\<rparr>\<rparr>)"
| "standalone_step rt (SetRegion r) w =
     Some (w\<lparr>standalone_ui := (standalone_ui w)\<lparr>region := r\<rparr>\<rparr>)"
| "standalone_step rt (SetVersion v) w =
     Some (w\<lparr>standalone_ui := (standalone_ui w)\<lparr>version := v\<rparr>\<rparr>)"
| "standalone_step rt Submit w =
     (if loading (standalone_ui w) then None
      else (case standalone_submit (standalone_ui w) of
              (s, None) \<Rightarrow> Some (w\<lparr>standalone_ui := s\<rparr>)
            | (s, Some url) \<Rightarrow>
                Some (w\<lparr>standalone_ui := s,
                        standalone_requests := standalone_requests w @ [url],
                        standalone_inflight :=
                          standalone_inflight w @ [length (standalone_requests w)]\<rparr>)))"
| "standalone_step rt (Settle i r) w =
     (if i \<in> set (standalone_inflight w)
      then Some (w\<lparr>standalone_ui := standalone_settle rt r (standalone_ui w),
                   standalone_inflight := removeAll i (standalone_inflight w)\<rparr>)
      else None)"

fun standalone_run ::
  "js_runtime \<Rightarrow> event list \<Rightarrow> standalone_world \<Rightarrow> standalone_world option" where
  "standalone_run rt [] w = Some w"
| "standalone_run rt (e # es) w =
     (case standalone_step rt e w of None \<Rightarrow> None | Some w' \<Rightarrow> standalone_run rt es w')"

text \<open>
  A state of the page in which the form shows its loading flag exactly while a request
  is in flight, and at most one request is.
\<close>

definition one_at_a_time :: "world \<Rightarrow> bool" where
  "one_at_a_time w =
     ((localLoading (ui w) = (inflight w \<noteq> [])) \<and> length (inflight w) \<le> 1)"

definition standalone_one_at_a_time :: "standalone_world \<Rightarrow> bool" where
  "standalone_one_at_a_time w =
     ((loading (standalone_ui w) = (standalone_inflight w \<noteq> []))
      \<and> length (standalone_inflight w) \<le> 1)"

section \<open>The performance cards of PlayerMetricsDisplay\<close>
























section \<open>Sample states\<close>

text \<open>
  The states the closed examples start from: the query of the specification's scenario
  (player Thrall on Stormrage, region us, version SoD) in a fresh page; the same with a
  result of an earlier search on display; a query for the realm Area 52; and a query
  with the name left empty.
\<close>

definition thrall_page :: page where
  "thrall_page =
     \<lparr>searchType = player, characterName = ''Thrall'', serverName = ''Stormrage'',
      region = ''us'', version = ''SoD'', searchResults = JNull, error = [],
      isLoading = False, localLoading = False, localError = []\<rparr>"

definition thrall_standalone :: standalone where
  "thrall_standalone =
     \<lparr>searchType = player, characterName = ''Thrall'', serverName = ''Stormrage'',
      region = ''us'', version = ''SoD'', searchResults = JNull, error = [],
      loading = False\<rparr>"

definition jaina_result :: json where
  "jaina_result = JObj [(''character'', JObj [(''name'', JStr ''Jaina'')])]"

definition thrall_result :: json where
  "thrall_result = JObj [(''character'', JObj [(''name'', JStr ''Thrall'')])]"

definition not_found :: json where
  "not_found = JObj [(''detail'', JStr ''Character not found'')]"

definition empty_name_page :: page where
  "empty_name_page = thrall_page\<lparr>characterName := [], searchResults := jaina_result\<rparr>"

definition empty_name_standalone :: standalone where
  "empty_name_standalone = thrall_standalone\<lparr>characterName := [], searchResults := jaina_result\<rparr>"

definition thrall_world :: world where
  "thrall_world = \<lparr>ui = thrall_page, requests = [], inflight = []\<rparr>"

definition thrall_standalone_world :: standalone_world where
  "thrall_standalone_world =
     \<lparr>standalone_ui = thrall_standalone, standalone_requests = [], standalone_inflight = []\<rparr>"








section \<open>Facts about the decimal renderings\<close>

lemma show_nat_small: "n < 10 \<Longrightarrow> show_nat n = [digit_char n]"
  by (subst show_nat.simps) simp

lemma show_nat_large: "10 \<le> n \<Longrightarrow> show_nat n = show_nat (n div 10) @ [digit_char (n mod 10)]"
  by (subst show_nat.simps) simp

lemma show_nat_nonempty: "show_nat n \<noteq> []"
  by (subst show_nat.simps) simp

lemma digit_char_digit: "d < 10 \<Longrightarrow> digit_char d \<in> set ''0123456789''"
proof -
  assume "d < 10"
  then have "d \<in> {0, 1, 2, 3, 4, 5, 6, 7, 8, 9}" by auto
  then show ?thesis by (auto simp: digit_char_def)
qed

lemma show_nat_digits: "set (show_nat n) \<subseteq> set ''0123456789''"
proof (induction n rule: show_nat.induct)
  case (1 n)
  show ?case
  proof (cases "n < 10")
    case True
    then show ?thesis using digit_char_digit [of n] by (simp add: show_nat_small)
  next
    case False
    then have "set (show_nat (n div 10)) \<subseteq> set ''0123456789''" using 1 by simp
    moreover have "digit_char (n mod 10) \<in> set ''0123456789''" by (rule digit_char_digit) simp
    ultimately show ?thesis using False by (simp add: show_nat_large)
  qed
qed

lemma toFixed_digits_0: "toFixed_digits 0 n = show_nat n"
  by (simp add: toFixed_digits_def)

lemma toFixed_digits_1:
  "toFixed_digits 1 n = show_nat (n div 10) @ ''.'' @ [digit_char (n mod 10)]"
proof (cases "n < 10")
  case True
  then show ?thesis
    by (simp add: toFixed_digits_def show_nat_small Let_def digit_char_def)
next
  case False
  then have l: "show_nat n = show_nat (n div 10) @ [digit_char (n mod 10)]"
    by (simp add: show_nat_large)
  have ne: "show_nat (n div 10) \<noteq> []" by (rule show_nat_nonempty)
  then have "length (show_nat (n div 10)) \<ge> 1" by (cases "show_nat (n div 10)") auto
  with ne show ?thesis
    by (simp add: toFixed_digits_def l Let_def)
qed

lemma toFixed_n_nearest:
  assumes "0 \<le> x"
  shows "\<bar>of_nat (toFixed_n f x) - x * 10 ^ f\<bar> \<le> 1 / 2"
proof -
  let ?y = "x * 10 ^ f + 1 / 2"
  have y: "0 \<le> ?y" using assms by simp
  then have "0 \<le> \<lfloor>?y\<rfloor>" by simp
  then have n: "(of_nat (toFixed_n f x) :: rat) = of_int \<lfloor>?y\<rfloor>"
    by (simp add: toFixed_n_def)
  have "of_int \<lfloor>?y\<rfloor> \<le> ?y" "?y < of_int \<lfloor>?y\<rfloor> + 1" by linarith+
  then show ?thesis unfolding n by linarith
qed

lemma toFixed_n_closest:
  assumes "0 \<le> x"
  shows "\<bar>of_nat (toFixed_n f x) - x * 10 ^ f\<bar> \<le> \<bar>of_int k - x * 10 ^ f\<bar>"
    and "\<bar>of_nat (toFixed_n f x) - x * 10 ^ f\<bar> = \<bar>of_int k - x * 10 ^ f\<bar> \<Longrightarrow> k \<le> int (toFixed_n f x)"
proof -
  let ?y = "x * 10 ^ f + 1 / 2"
  have y: "0 \<le> ?y" using assms by simp
  then have nn: "0 \<le> \<lfloor>?y\<rfloor>" by simp
  then have n: "(of_nat (toFixed_n f x) :: rat) = of_int \<lfloor>?y\<rfloor>"
    by (simp add: toFixed_n_def)
  have ni: "int (toFixed_n f x) = \<lfloor>?y\<rfloor>" using nn by (simp add: toFixed_n_def)
  have b: "of_int \<lfloor>?y\<rfloor> \<le> ?y" "?y < of_int \<lfloor>?y\<rfloor> + 1" by linarith+
  consider "k \<le> \<lfloor>?y\<rfloor> - 1" | "k = \<lfloor>?y\<rfloor>" | "k \<ge> \<lfloor>?y\<rfloor> + 1" by linarith
  then show "\<bar>of_nat (toFixed_n f x) - x * 10 ^ f\<bar> \<le> \<bar>of_int k - x * 10 ^ f\<bar>"
  proof cases
    case 1
    then have "(of_int k :: rat) \<le> of_int \<lfloor>?y\<rfloor> - 1" by (metis of_int_le_iff of_int_diff of_int_1)
    then show ?thesis unfolding n using b by linarith
  next
    case 2
    then show ?thesis unfolding n by simp
  next
    case 3
    then have "(of_int k :: rat) \<ge> of_int \<lfloor>?y\<rfloor> + 1" by (metis of_int_le_iff of_int_add of_int_1)
    then show ?thesis unfolding n using b by linarith
  qed
  show "k \<le> int (toFixed_n f x)" if "\<bar>of_nat (toFixed_n f x) - x * 10 ^ f\<bar> = \<bar>of_int k - x * 10 ^ f\<bar>"
  proof (rule ccontr)
    assume "\<not> k \<le> int (toFixed_n f x)"
    then have "k \<ge> \<lfloor>?y\<rfloor> + 1" using ni by linarith
    then have "(of_int k :: rat) \<ge> of_int \<lfloor>?y\<rfloor> + 1" by (metis of_int_le_iff of_int_add of_int_1)
    then show False using that b unfolding n by linarith
  qed
qed


lemma floor_numeral_quotient: "\<lfloor>(numeral a :: rat) / numeral b\<rfloor> = numeral a div numeral b"
  using floor_divide_of_int_eq [of "numeral a" "numeral b", where ?'a = rat] by simp

lemma js_ge_Fin: "js_ge (Fin a) (Fin b) = (b \<le> a)"
  by auto

lemma toFixed_nonneg:
  "0 \<le> x \<Longrightarrow> x < 10 ^ 21 \<Longrightarrow> toFixed rt f (Fin x) = toFixed_digits f (toFixed_n f x)"
  by simp

lemma toFixed_neg:
  "x < 0 \<Longrightarrow> - x < 10 ^ 21 \<Longrightarrow> toFixed rt f (Fin x) = ''-'' @ toFixed_digits f (toFixed_n f (- x))"
  by simp

lemma toFixed_n_tenth:
  assumes "0 \<le> x"
  shows "\<bar>of_nat (toFixed_n 1 x) / 10 - x\<bar> \<le> 1 / 20"
proof -
  have "\<bar>of_nat (toFixed_n 1 x) - x * 10 ^ 1\<bar> \<le> 1 / 2"
    using assms by (rule toFixed_n_nearest)
  then have "\<bar>of_nat (toFixed_n 1 x) - x * 10\<bar> \<le> 1 / 2" by (simp only: power_one_right)
  then show ?thesis by linarith
qed

lemma ilog2_up_bounds:
  "1 \<le> x \<Longrightarrow> 2 ^ ilog2_up x \<le> x \<and> x < 2 ^ Suc (ilog2_up x)"
proof (induction x rule: ilog2_up.induct)
  case (1 x)
  show ?case
  proof (cases "x < 2")
    case True
    then have "ilog2_up x = 0" by (subst ilog2_up.simps) simp
    with True "1.prems" show ?thesis by simp
  next
    case False
    then have s: "ilog2_up x = Suc (ilog2_up (x / 2))" by (subst ilog2_up.simps) simp
    from False have "1 \<le> x / 2" by simp
    with "1.IH" False
    have "2 ^ ilog2_up (x / 2) \<le> x / 2 \<and> x / 2 < 2 ^ Suc (ilog2_up (x / 2))" by simp
    then show ?thesis unfolding s by simp
  qed
qed

lemma round_half_even_near: "\<bar>of_int (round_half_even y) - y\<bar> \<le> 1 / 2"
proof -
  have "of_int \<lfloor>y\<rfloor> \<le> y" "y < of_int \<lfloor>y\<rfloor> + 1" by linarith+
  then show ?thesis
    by (auto simp: round_half_even_def Let_def)
qed

lemma nearest_double_normal:
  assumes "1 \<le> x" and "x \<le> 10 ^ 21"
  shows "\<exists>q. nearest_double x = Fin q \<and> \<bar>q - x\<bar> \<le> x / 2 ^ 53"
proof -
  define k where "k = ilog2_up x"
  define u :: rat where "u = 2 ^ k / 2 ^ 52"
  define y where "y = of_int (round_half_even (x / u)) * u"
  have b: "2 ^ k \<le> x" using ilog2_up_bounds [OF assms(1)] by (simp add: k_def)
  have u0: "0 < u" by (simp add: u_def)
  have e: "max (ilog2 x) (- 1022) = int k" using assms(1) by (simp add: ilog2_def k_def)
  have p: "(2 :: rat) powi (int k - 52) = u"
    by (simp add: u_def power_int_diff)
  have "\<bar>of_int (round_half_even (x / u)) - x / u\<bar> \<le> 1 / 2" by (rule round_half_even_near)
  then have "\<bar>of_int (round_half_even (x / u)) - x / u\<bar> * u \<le> 1 / 2 * u"
    using u0 by (intro mult_right_mono) simp_all
  moreover have "\<bar>of_int (round_half_even (x / u)) - x / u\<bar> * u = \<bar>y - x\<bar>"
  proof -
    have "\<bar>of_int (round_half_even (x / u)) - x / u\<bar> * u
        = \<bar>(of_int (round_half_even (x / u)) - x / u) * u\<bar>"
      using u0 by (simp add: abs_mult)
    also have "(of_int (round_half_even (x / u)) - x / u) * u = y - x"
      using u0 by (simp add: y_def algebra_simps)
    finally show ?thesis .
  qed
  ultimately have d: "\<bar>y - x\<bar> \<le> u / 2" by simp
  have "u / 2 = 2 ^ k / 2 ^ 53" by (simp add: u_def)
  also have "\<dots> \<le> x / 2 ^ 53" using b by (simp add: divide_right_mono)
  finally have h: "u / 2 \<le> x / 2 ^ 53" .
  with d have r: "\<bar>y - x\<bar> \<le> x / 2 ^ 53" by linarith
  have "x / 2 ^ 53 \<le> x" using assms(1) by (simp add: field_simps)
  with r have "y \<le> 2 * x" by linarith
  also have "\<dots> \<le> 2 * 10 ^ 21" using assms(2) by simp
  also have "\<dots> < (2 :: rat) ^ 1024" by simp
  finally have o: "\<not> 2 ^ 1024 \<le> y" by simp
  have "nearest_double x = Fin y"
    using assms(1) o unfolding nearest_double_def
    by (simp add: Let_def e p y_def [symmetric] del: power_numeral)
  with r show ?thesis by blast
qed

lemma quotient_double:
  assumes "1000 \<le> c" and "c \<le> v" and "v < 10 ^ 21"
  shows "\<exists>q. js_div (Fin v) (Fin c) = Fin q \<and> \<bar>q - v / c\<bar> \<le> v / c / 2 ^ 53
           \<and> 0 \<le> q \<and> q < 10 ^ 21"
proof -
  have c0: "0 < c" using assms(1) by simp
  have x1: "1 \<le> v / c" using assms(2) c0 by (simp add: field_simps)
  have "v \<le> 10 ^ 18 * c" using assms(1,3) c0
  proof -
    have "v < 10 ^ 18 * 1000" using assms(3) by simp
    also have "\<dots> \<le> 10 ^ 18 * c" using assms(1) by (intro mult_left_mono) simp_all
    finally show ?thesis by simp
  qed
  then have x2: "v / c \<le> 10 ^ 18" using c0 by (simp add: field_simps)
  then have "v / c \<le> 10 ^ 21" by simp
  with x1 obtain q where q: "nearest_double (v / c) = Fin q" "\<bar>q - v / c\<bar> \<le> v / c / 2 ^ 53"
    using nearest_double_normal by blast
  have s: "v / c / 2 ^ 53 \<le> v / c" using x1 by (simp add: field_simps)
  have "0 \<le> q" using q(2) s x1 by linarith
  moreover have "q < 10 ^ 21"
  proof -
    have "q \<le> 2 * (v / c)" using q(2) s by linarith
    also have "\<dots> \<le> 2 * 10 ^ 18" using x2 by simp
    also have "\<dots> < (10 :: rat) ^ 21" by simp
    finally show ?thesis .
  qed
  moreover have "js_div (Fin v) (Fin c) = Fin q" using q(1) c0 by simp
  ultimately show ?thesis using q(2) by blast
qed

lemma formatNumber_M:
  assumes "1000000 \<le> v" and "js_div (Fin v) (Fin 1000000) = Fin q" and "0 \<le> q" and "q < 10 ^ 21"
  shows "formatNumber rt (Fin v) =
      show_nat (toFixed_n 1 q div 10) @ ''.'' @ [digit_char (toFixed_n 1 q mod 10)] @ ''M''"
proof -
  have "formatNumber rt (Fin v) = toFixed rt 1 (Fin q) @ ''M''"
    using assms(1,2) by (simp add: formatNumber_def del: toFixed.simps js_div.simps)
  also have "toFixed rt 1 (Fin q) = toFixed_digits 1 (toFixed_n 1 q)"
    using assms(3,4) by (rule toFixed_nonneg)
  finally show ?thesis by (simp only: toFixed_digits_1 append_assoc)
qed

lemma formatNumber_K:
  assumes "1000 \<le> v" and "v < 1000000" and "js_div (Fin v) (Fin 1000) = Fin q"
    and "0 \<le> q" and "q < 10 ^ 21"
  shows "formatNumber rt (Fin v) =
      show_nat (toFixed_n 1 q div 10) @ ''.'' @ [digit_char (toFixed_n 1 q mod 10)] @ ''K''"
proof -
  have "formatNumber rt (Fin v) = toFixed rt 1 (Fin q) @ ''K''"
    using assms(1,2,3) by (simp add: formatNumber_def del: toFixed.simps js_div.simps)
  also have "toFixed rt 1 (Fin q) = toFixed_digits 1 (toFixed_n 1 q)"
    using assms(4,5) by (rule toFixed_nonneg)
  finally show ?thesis by (simp only: toFixed_digits_1 append_assoc)
qed

lemma formatNumber_units:
  assumes "v < 1000" and "- (10 ^ 21) < v"
  shows "formatNumber rt (Fin v) = (if v < 0 then ''-'' else []) @ show_nat (toFixed_n 0 \<bar>v\<bar>)"
proof -
  have f: "formatNumber rt (Fin v) = toFixed rt 0 (Fin v)"
    using assms(1) by (simp add: formatNumber_def del: toFixed.simps)
  show ?thesis
  proof (cases "v < 0")
    case True
    then have "toFixed rt 0 (Fin v) = ''-'' @ toFixed_digits 0 (toFixed_n 0 (- v))"
      using assms(2) by (intro toFixed_neg) simp_all
    then show ?thesis using True f by (simp add: toFixed_digits_0)
  next
    case False
    then have "toFixed rt 0 (Fin v) = toFixed_digits 0 (toFixed_n 0 v)"
      using assms(1) by (intro toFixed_nonneg) simp_all
    then show ?thesis using False f by (simp add: toFixed_digits_0)
  qed
qed

lemma nearest_double_zero: "nearest_double 0 = Fin 0"
  by (simp add: nearest_double_def)

lemma nearest_double_hundred: "nearest_double 100 = Fin 100"
  by code_simp

lemma formatters_at_zero_and_one:
  shows "formatPercentage rt (Fin 0) = ''0.0%''"
    and "formatPercentage rt (Fin 1) = ''100.0%''"
    and "formatValue rt (Fin 0) = ''0.0%''"
    and "formatValue rt (Fin 1) = ''1.00''"
    and "formatNumber rt (Fin 0) = ''0''"
  by (simp_all add: formatPercentage_def formatValue_def formatNumber_def toFixed_digits_def
      toFixed_n_def floor_numeral_quotient show_nat.simps digit_char_def nearest_double_zero
      nearest_double_hundred)

section \<open>The odds formatter\<close>

lemma pos_toString_int:
  assumes "0 \<le> k" and "k \<le> 2 ^ 53"
  shows "pos_toString rt (of_int k) = show_nat (nat k)"
proof -
  have "(of_int k :: rat) \<le> of_int (2 ^ 53)" using assms(2) by (simp only: of_int_le_iff)
  then have "(of_int k :: rat) \<le> 2 ^ 53" by simp
  then show ?thesis by (simp add: pos_toString_def)
qed

lemma Number_toString_int:
  assumes "\<bar>k\<bar> \<le> 2 ^ 53"
  shows "Number_toString rt (Fin (of_int k)) = (if k < 0 then ''-'' else []) @ show_nat (nat \<bar>k\<bar>)"
proof (cases "k < 0")
  case True
  then have "pos_toString rt (of_int (- k)) = show_nat (nat (- k))"
    using assms by (intro pos_toString_int) simp_all
  then show ?thesis using True by simp
next
  case False
  then have "pos_toString rt (of_int k) = show_nat (nat k)"
    using assms by (intro pos_toString_int) simp_all
  then show ?thesis using False by simp
qed

text \<open>
  Claim C1, as the code has it. For every odds pair \<open>(a, b)\<close> the text rendered for a
  component is \<open>+\<close> followed by the number when the component is greater than zero, and
  the number unchanged otherwise: a negative value keeps its sign, and zero renders as
  \<open>0\<close>, with no \<open>+\<close>. The two components are formatted independently of each other.
  For an integer component \<open>k\<close> (up to \<open>2^53\<close> in absolute value) the text is \<open>+\<close>, \<open>-\<close>
  or nothing, for \<open>k\<close> positive, negative or zero, followed by the digits of \<open>|k|\<close>.
\<close>

theorem formatOdds_sign_rule:
  "renderChild rt (over (formatOdds rt (a, b))) =
     (if js_gt a (Fin 0) then ''+'' @ Number_toString rt a else Number_toString rt a)
   \<and> renderChild rt (under (formatOdds rt (a, b))) =
     (if js_gt b (Fin 0) then ''+'' @ Number_toString rt b else Number_toString rt b)
   \<and> (\<bar>k\<bar> \<le> 2 ^ 53 \<longrightarrow>
        renderChild rt (over (formatOdds rt (Fin (of_int k), b)))
          = (if 0 < k then ''+'' else if k < 0 then ''-'' else []) @ show_nat (nat \<bar>k\<bar>)
      \<and> renderChild rt (under (formatOdds rt (a, Fin (of_int k))))
          = (if 0 < k then ''+'' else if k < 0 then ''-'' else []) @ show_nat (nat \<bar>k\<bar>))"
proof (intro conjI impI)
  show "renderChild rt (over (formatOdds rt (a, b))) =
     (if js_gt a (Fin 0) then ''+'' @ Number_toString rt a else Number_toString rt a)"
    by (simp add: formatOdds_def)
  show "renderChild rt (under (formatOdds rt (a, b))) =
     (if js_gt b (Fin 0) then ''+'' @ Number_toString rt b else Number_toString rt b)"
    by (simp add: formatOdds_def)
next
  assume k: "\<bar>k\<bar> \<le> 2 ^ 53"
  have n: "Number_toString rt (Fin (of_int k)) = (if k < 0 then ''-'' else []) @ show_nat (nat \<bar>k\<bar>)"
    using k by (rule Number_toString_int)
  show "renderChild rt (over (formatOdds rt (Fin (of_int k), b)))
      = (if 0 < k then ''+'' else if k < 0 then ''-'' else []) @ show_nat (nat \<bar>k\<bar>)"
    by (simp add: formatOdds_def n del: Number_toString.simps)
  show "renderChild rt (under (formatOdds rt (a, Fin (of_int k))))
      = (if 0 < k then ''+'' else if k < 0 then ''-'' else []) @ show_nat (nat \<bar>k\<bar>)"
    by (simp add: formatOdds_def n del: Number_toString.simps)
qed

theorem formatOdds_sign_rule_witness:
  "renderChild sample_runtime (over (formatOdds sample_runtime (Fin 150, Fin (- 180)))) = ''+150''
   \<and> renderChild sample_runtime (under (formatOdds sample_runtime (Fin 150, Fin (- 180)))) = ''-180''
   \<and> renderChild sample_runtime (over (formatOdds sample_runtime (Fin 0, Fin 0))) = ''0''"
proof -
  have k: "\<bar>150 :: int\<bar> \<le> 2 ^ 53" "\<bar>- 180 :: int\<bar> \<le> 2 ^ 53" "\<bar>0 :: int\<bar> \<le> 2 ^ 53"
    by simp_all
  have 1: "renderChild sample_runtime (over (formatOdds sample_runtime (Fin (of_int 150), Fin (- 180))))
      = (if 0 < (150 :: int) then ''+'' else if (150 :: int) < 0 then ''-'' else [])
        @ show_nat (nat \<bar>150\<bar>)"
    using formatOdds_sign_rule [of sample_runtime "Fin 150" "Fin (- 180)" 150] k(1) by blast
  have 2: "renderChild sample_runtime (under (formatOdds sample_runtime (Fin 150, Fin (of_int (- 180)))))
      = (if 0 < (- 180 :: int) then ''+'' else if (- 180 :: int) < 0 then ''-'' else [])
        @ show_nat (nat \<bar>- 180\<bar>)"
    using formatOdds_sign_rule [of sample_runtime "Fin 150" "Fin (- 180)" "- 180"] k(2) by blast
  have 3: "renderChild sample_runtime (over (formatOdds sample_runtime (Fin (of_int 0), Fin 0)))
      = (if 0 < (0 :: int) then ''+'' else if (0 :: int) < 0 then ''-'' else [])
        @ show_nat (nat \<bar>0\<bar>)"
    using formatOdds_sign_rule [of sample_runtime "Fin 0" "Fin 0" 0] k(3) by blast
  have e: "show_nat 150 = ''150''" "show_nat 180 = ''180''" "show_nat 0 = ''0''"
    by (simp_all add: show_nat.simps digit_char_def)
  from 1 e(1) have "renderChild sample_runtime (over (formatOdds sample_runtime (Fin 150, Fin (- 180)))) = ''+150''"
    by simp
  moreover from 2 e(2) have "renderChild sample_runtime (under (formatOdds sample_runtime (Fin 150, Fin (- 180)))) = ''-180''"
    by simp
  moreover from 3 e(3) have "renderChild sample_runtime (over (formatOdds sample_runtime (Fin 0, Fin 0))) = ''0''"
    by simp
  ultimately show ?thesis by blast
qed

text \<open>
  The claim asks for \<open>+0\<close> at zero. The test of the formatter is \<^verbatim>\<open>over > 0\<close>, in each
  of its four copies, and so is the test that picks the colour of the figure: zero takes
  the branch of the negative values and renders as \<open>0\<close>.
\<close>

theorem formatOdds_zero_counterexample:
  "renderChild sample_runtime (over (formatOdds sample_runtime (Fin 0, Fin 0))) = ''0''
   \<and> renderChild sample_runtime (over (formatOdds sample_runtime (Fin 0, Fin 0))) \<noteq> ''+0''
   \<and> renderChild sample_runtime (under (formatOdds sample_runtime (Fin 0, Fin 0))) = ''0''"
  by (simp add: formatOdds_def pos_toString_def show_nat.simps digit_char_def)

section \<open>The success rate of a report\<close>

text \<open>
  Claim C7 at its failing input. The success rate of a report divides \<^verbatim>\<open>kills\<close> by
  \<^verbatim>\<open>total_fights\<close> with no test of the divisor. For a report with no fights and no kills
  the quotient is NaN and the page shows \<open>NaN%\<close>; with no fights and some kills it is
  Infinity and the page shows \<open>Infinity%\<close>. No report with \<^verbatim>\<open>total_fights\<close> equal to 0
  gets a percentage.
\<close>

theorem successRate_zero_fights:
  "successRate rt \<lparr>title = t, date = d, zone = z, total_fights = Fin 0, kills = Fin 0\<rparr> = ''NaN%''
   \<and> successRate rt \<lparr>title = t, date = d, zone = z, total_fights = Fin 0, kills = Fin 3\<rparr> = ''Infinity%''
   \<and> successRate rt \<lparr>title = t, date = d, zone = z, total_fights = Fin 0, kills = Fin k\<rparr>
       = (if k = 0 then ''NaN%'' else if 0 < k then ''Infinity%'' else ''-Infinity%'')"
  by (simp add: successRate_def)

section \<open>The magnitude formatter\<close>

text \<open>
  Claim C8, as the code has it. For every finite magnitude \<open>v\<close> below \<open>10^21\<close> in absolute
  value: from 1,000,000 on, \<^verbatim>\<open>formatNumber\<close> renders the double quotient \<open>q\<close> of \<open>v\<close> and
  \<open>10^6\<close> (the exact quotient rounded to the nearest double, within \<open>2^-53\<close> of it,
  relatively) with one decimal, followed by \<open>M\<close>: the integer part, a point and one
  digit of the number of tenths \<open>n\<close> that is nearest to \<open>q\<close>, within half a tenth of it;
  from 1,000 up to 1,000,000 it renders the double quotient of \<open>v\<close> and \<open>10^3\<close> in the
  same way, followed by \<open>K\<close>; below 1,000 it renders an integer string: an optional
  minus sign and the decimal digits of the integer nearest to the magnitude.
\<close>

theorem formatNumber_magnitude:
  assumes "\<bar>v\<bar> < 10 ^ 21"
  shows "(1000000 \<le> v \<longrightarrow>
            (\<exists>q. js_div (Fin v) (Fin 1000000) = Fin q
               \<and> \<bar>q - v / 1000000\<bar> \<le> v / 1000000 / 2 ^ 53
               \<and> formatNumber rt (Fin v) =
                   show_nat (toFixed_n 1 q div 10) @ ''.'' @ [digit_char (toFixed_n 1 q mod 10)] @ ''M''
               \<and> \<bar>of_nat (toFixed_n 1 q) / 10 - q\<bar> \<le> 1 / 20))
       \<and> (1000 \<le> v \<and> v < 1000000 \<longrightarrow>
            (\<exists>q. js_div (Fin v) (Fin 1000) = Fin q
               \<and> \<bar>q - v / 1000\<bar> \<le> v / 1000 / 2 ^ 53
               \<and> formatNumber rt (Fin v) =
                   show_nat (toFixed_n 1 q div 10) @ ''.'' @ [digit_char (toFixed_n 1 q mod 10)] @ ''K''
               \<and> \<bar>of_nat (toFixed_n 1 q) / 10 - q\<bar> \<le> 1 / 20))
       \<and> (v < 1000 \<longrightarrow>
            formatNumber rt (Fin v) = (if v < 0 then ''-'' else []) @ show_nat (toFixed_n 0 \<bar>v\<bar>)
            \<and> set (show_nat (toFixed_n 0 \<bar>v\<bar>)) \<subseteq> set ''0123456789''
            \<and> \<bar>of_nat (toFixed_n 0 \<bar>v\<bar>) - \<bar>v\<bar>\<bar> \<le> 1 / 2)"
proof (intro conjI impI)
  assume h: "1000000 \<le> v"
  have "v < 10 ^ 21" using assms by simp
  with h obtain q where q: "js_div (Fin v) (Fin 1000000) = Fin q"
    "\<bar>q - v / 1000000\<bar> \<le> v / 1000000 / 2 ^ 53" "0 \<le> q" "q < 10 ^ 21"
    using quotient_double [of 1000000 v] by auto
  have "formatNumber rt (Fin v) =
      show_nat (toFixed_n 1 q div 10) @ ''.'' @ [digit_char (toFixed_n 1 q mod 10)] @ ''M''"
    using h q(1,3,4) by (rule formatNumber_M)
  moreover have "\<bar>of_nat (toFixed_n 1 q) / 10 - q\<bar> \<le> 1 / 20"
    using q(3) by (rule toFixed_n_tenth)
  ultimately show "\<exists>q. js_div (Fin v) (Fin 1000000) = Fin q
      \<and> \<bar>q - v / 1000000\<bar> \<le> v / 1000000 / 2 ^ 53
      \<and> formatNumber rt (Fin v) =
          show_nat (toFixed_n 1 q div 10) @ ''.'' @ [digit_char (toFixed_n 1 q mod 10)] @ ''M''
      \<and> \<bar>of_nat (toFixed_n 1 q) / 10 - q\<bar> \<le> 1 / 20"
    using q(1,2) by blast
next
  assume h: "1000 \<le> v \<and> v < 1000000"
  then have "v < 10 ^ 21" by simp
  with h obtain q where q: "js_div (Fin v) (Fin 1000) = Fin q"
    "\<bar>q - v / 1000\<bar> \<le> v / 1000 / 2 ^ 53" "0 \<le> q" "q < 10 ^ 21"
    using quotient_double [of 1000 v] by auto
  have "formatNumber rt (Fin v) =
      show_nat (toFixed_n 1 q div 10) @ ''.'' @ [digit_char (toFixed_n 1 q mod 10)] @ ''K''"
    using h q(1,3,4) by (intro formatNumber_K) simp_all
  moreover have "\<bar>of_nat (toFixed_n 1 q) / 10 - q\<bar> \<le> 1 / 20"
    using q(3) by (rule toFixed_n_tenth)
  ultimately show "\<exists>q. js_div (Fin v) (Fin 1000) = Fin q
      \<and> \<bar>q - v / 1000\<bar> \<le> v / 1000 / 2 ^ 53
      \<and> formatNumber rt (Fin v) =
          show_nat (toFixed_n 1 q div 10) @ ''.'' @ [digit_char (toFixed_n 1 q mod 10)] @ ''K''
      \<and> \<bar>of_nat (toFixed_n 1 q) / 10 - q\<bar> \<le> 1 / 20"
    using q(1,2) by blast
next
  assume v: "v < 1000"
  show "formatNumber rt (Fin v) = (if v < 0 then ''-'' else []) @ show_nat (toFixed_n 0 \<bar>v\<bar>)"
    using v assms by (intro formatNumber_units) simp_all
  show "set (show_nat (toFixed_n 0 \<bar>v\<bar>)) \<subseteq> set ''0123456789''"
    by (rule show_nat_digits)
  show "\<bar>of_nat (toFixed_n 0 \<bar>v\<bar>) - \<bar>v\<bar>\<bar> \<le> 1 / 2"
    using toFixed_n_nearest [of "\<bar>v\<bar>" 0] by simp
qed

lemma sample_quotients:
  "js_div (Fin 2500000) (Fin 1000000) = Fin (5 / 2)"
  "js_div (Fin 1000000) (Fin 1000000) = Fin 1"
  "js_div (Fin 45500) (Fin 1000) = Fin (91 / 2)"
  by code_simp+

theorem formatNumber_magnitude_witness:
  "formatNumber sample_runtime (Fin 2500000) = ''2.5M''
   \<and> formatNumber sample_runtime (Fin 1000000) = ''1.0M''
   \<and> formatNumber sample_runtime (Fin 45500) = ''45.5K''
   \<and> formatNumber sample_runtime (Fin 999) = ''999''
   \<and> formatNumber sample_runtime (Fin 0) = ''0''"
proof -
  have e: "toFixed_n 1 (5 / 2) = 25" "toFixed_n 1 1 = 10" "toFixed_n 1 (91 / 2) = 455"
    by (simp_all add: toFixed_n_def floor_numeral_quotient)
  have d: "show_nat 2 = ''2''" "show_nat 1 = ''1''" "show_nat 45 = ''45''" "show_nat 999 = ''999''"
    "show_nat 0 = ''0''" "digit_char 5 = CHR ''5''" "digit_char 0 = CHR ''0''"
    by (simp_all add: show_nat.simps digit_char_def)
  have 1: "formatNumber sample_runtime (Fin 2500000) = ''2.5M''"
  proof -
    obtain q where q: "js_div (Fin 2500000) (Fin 1000000) = Fin q"
      "formatNumber sample_runtime (Fin 2500000) =
         show_nat (toFixed_n 1 q div 10) @ ''.'' @ [digit_char (toFixed_n 1 q mod 10)] @ ''M''"
      using formatNumber_magnitude [of 2500000 sample_runtime]
      by (auto simp del: js_div.simps)
    from q(1) sample_quotients(1) have "q = 5 / 2" by (simp del: js_div.simps)
    with q(2) e(1) d show ?thesis by simp
  qed
  have 2: "formatNumber sample_runtime (Fin 1000000) = ''1.0M''"
  proof -
    obtain q where q: "js_div (Fin 1000000) (Fin 1000000) = Fin q"
      "formatNumber sample_runtime (Fin 1000000) =
         show_nat (toFixed_n 1 q div 10) @ ''.'' @ [digit_char (toFixed_n 1 q mod 10)] @ ''M''"
      using formatNumber_magnitude [of 1000000 sample_runtime]
      by (auto simp del: js_div.simps)
    from q(1) sample_quotients(2) have "q = 1" by (simp del: js_div.simps)
    with q(2) e(2) d show ?thesis by simp
  qed
  have 3: "formatNumber sample_runtime (Fin 45500) = ''45.5K''"
  proof -
    obtain q where q: "js_div (Fin 45500) (Fin 1000) = Fin q"
      "formatNumber sample_runtime (Fin 45500) =
         show_nat (toFixed_n 1 q div 10) @ ''.'' @ [digit_char (toFixed_n 1 q mod 10)] @ ''K''"
      using formatNumber_magnitude [of 45500 sample_runtime]
      by (auto simp del: js_div.simps)
    from q(1) sample_quotients(3) have "q = 91 / 2" by (simp del: js_div.simps)
    with q(2) e(3) d show ?thesis by simp
  qed
  have 4: "formatNumber sample_runtime (Fin 999) = ''999''"
    using formatNumber_magnitude [of 999 sample_runtime] d
    by (simp add: toFixed_n_def floor_numeral_quotient)
  have 5: "formatNumber sample_runtime (Fin 0) = ''0''"
    using formatNumber_magnitude [of 0 sample_runtime] d
    by (simp add: toFixed_n_def floor_numeral_quotient)
  from 1 2 3 4 5 show ?thesis by blast
qed

lemma ilog2_up_unique:
  assumes "2 ^ k \<le> x" and "x < 2 ^ Suc k"
  shows "ilog2_up x = k"
proof -
  have "(1 :: rat) \<le> 2 ^ k" by simp
  with assms(1) have "1 \<le> x" by linarith
  then have b: "2 ^ ilog2_up x \<le> x" "x < 2 ^ Suc (ilog2_up x)"
    using ilog2_up_bounds by blast+
  have "(2 :: rat) ^ k < 2 ^ Suc (ilog2_up x)" using assms(1) b(2) by linarith
  then have 1: "k < Suc (ilog2_up x)" by (simp only: power_strict_increasing_iff one_less_numeral_iff
        semiring_norm)
  have "(2 :: rat) ^ ilog2_up x < 2 ^ Suc k" using assms(2) b(1) by linarith
  then have 2: "ilog2_up x < Suc k" by (simp only: power_strict_increasing_iff one_less_numeral_iff
        semiring_norm)
  from 1 2 show ?thesis by simp
qed

lemma quotient_1e21:
  "js_div (Fin 1000000000000000013287555072) (Fin 1000000) = Fin (10 ^ 21)"
proof -
  have k: "ilog2_up (15625000000000000207618048 / 15625) = 69"
    by (rule ilog2_up_unique) simp_all
  have f: "\<lfloor>119209289550781251584 / 15625 :: rat\<rfloor> = 7629394531250000"
    by (simp only: floor_numeral_quotient)
  have r: "round_half_even (119209289550781251584 / 15625) = 7629394531250000"
    by (simp add: round_half_even_def f Let_def)
  have "nearest_double (15625000000000000207618048 / 15625) = Fin (10 ^ 21)"
    by (simp add: nearest_double_def ilog2_def k power_int_def r Let_def)
  then show ?thesis by simp
qed

text \<open>
  The claim has the exact quotient rounded to one decimal, for every magnitude. For 1150
  the exact quotient is 1.15, which rounds to 1.2 (so does \<^verbatim>\<open>toFixed\<close> itself, given
  1.15 exactly); the division yields the double next below 1.15 and the code prints
  \<open>1.1K\<close>. For the double nearest to \<open>10^27\<close>, which is
  1000000000000000013287555072, the division yields \<open>10^21\<close>, which \<^verbatim>\<open>toFixed\<close> hands
  to \<^verbatim>\<open>Number::toString\<close>: the code prints \<open>1e+21M\<close>, with no decimal.
\<close>

theorem formatNumber_rounding_counterexample:
  "formatNumber sample_runtime (Fin 1150) = ''1.1K''
   \<and> toFixed sample_runtime 1 (Fin (1150 / 1000)) = ''1.2''
   \<and> js_div (Fin 1150) (Fin 1000) = Fin (2589569785738035 / 2251799813685248)
   \<and> (2589569785738035 / 2251799813685248 :: rat) < 1150 / 1000
   \<and> formatNumber sample_runtime (Fin 1000000000000000013287555072) = ''1e+21M''"
proof -
  have "formatNumber sample_runtime (Fin 1150) = ''1.1K''" by code_simp
  moreover have "toFixed sample_runtime 1 (Fin (1150 / 1000)) = ''1.2''" by code_simp
  moreover have "js_div (Fin 1150) (Fin 1000) = Fin (2589569785738035 / 2251799813685248)"
    by code_simp
  moreover have "(2589569785738035 / 2251799813685248 :: rat) < 1150 / 1000" by simp
  moreover have "formatNumber sample_runtime (Fin 1000000000000000013287555072) = ''1e+21M''"
    using quotient_1e21
    by (simp add: formatNumber_def pos_toString_def sample_runtime_def del: js_div.simps)
  ultimately show ?thesis by blast
qed

section \<open>The loading flag\<close>

lemma handleSearch_submit_valid:
  "characterName p \<noteq> [] \<Longrightarrow> serverName p \<noteq> [] \<Longrightarrow>
   handleSearch_submit p =
     (p\<lparr>localError := [], error := [], isLoading := True, localLoading := True\<rparr>,
      Some (handleSearch_url p))"
  by (simp add: handleSearch_submit_def)

lemma standalone_submit_valid:
  "characterName s \<noteq> [] \<Longrightarrow> serverName s \<noteq> [] \<Longrightarrow>
   standalone_submit s =
     (s\<lparr>error := [], searchResults := JNull, loading := True\<rparr>, Some (standalone_url s))"
  by (simp add: standalone_submit_def)

lemma handleSearch_settle_flags:
  "isLoading (handleSearch_settle rt r p) = False"
  "localLoading (handleSearch_settle rt r p) = False"
  by (simp_all add: handleSearch_settle_def handleSearch_finally_def)

lemma standalone_settle_flag: "loading (standalone_settle rt r s) = False"
  by (simp add: standalone_settle_def standalone_finally_def)

text \<open>
  Claim C2. For a query with a name and a server, the synchronous part of the submit
  sets the loading flag (in \<^verbatim>\<open>SearchPage/index.tsx\<close> the page's \<^verbatim>\<open>isLoading\<close> and the form's
  \<^verbatim>\<open>localLoading\<close>, in \<^verbatim>\<open>SearchPage.tsx\<close> its \<^verbatim>\<open>loading\<close>) and calls \<^verbatim>\<open>fetch\<close>; the part
  that runs once the request has come to its result clears the flag, whatever the result
  (\<open>r\<close> ranges over a rejected \<^verbatim>\<open>fetch\<close>, a response of any status, and a body that fails
  to parse) and whatever the state then is.
\<close>

theorem loading_flag_released:
  assumes "characterName p \<noteq> [] \<and> serverName p \<noteq> []"
    and "characterName s \<noteq> [] \<and> serverName s \<noteq> []"
  shows "isLoading (fst (handleSearch_submit p)) \<and> localLoading (fst (handleSearch_submit p))
       \<and> snd (handleSearch_submit p) \<noteq> None
       \<and> \<not> isLoading (handleSearch_settle rt r p') \<and> \<not> localLoading (handleSearch_settle rt r p')
       \<and> loading (fst (standalone_submit s)) \<and> snd (standalone_submit s) \<noteq> None
       \<and> \<not> loading (standalone_settle rt r s')"
  using assms
  by (simp add: handleSearch_submit_valid standalone_submit_valid handleSearch_settle_flags
      standalone_settle_flag)

theorem loading_flag_released_witness:
  "isLoading (fst (handleSearch_submit thrall_page))
   \<and> localLoading (fst (handleSearch_submit thrall_page))
   \<and> snd (handleSearch_submit thrall_page) \<noteq> None
   \<and> \<not> isLoading (handleSearch_settle sample_runtime (FetchRejected (ErrorObject ''Failed to fetch''))
          (fst (handleSearch_submit thrall_page)))
   \<and> \<not> localLoading (handleSearch_settle sample_runtime (FetchRejected (ErrorObject ''Failed to fetch''))
          (fst (handleSearch_submit thrall_page)))
   \<and> loading (fst (standalone_submit thrall_standalone))
   \<and> snd (standalone_submit thrall_standalone) \<noteq> None
   \<and> \<not> loading (standalone_settle sample_runtime (FetchRejected (ErrorObject ''Failed to fetch''))
          (fst (standalone_submit thrall_standalone)))"
proof -
  have "characterName thrall_page \<noteq> [] \<and> serverName thrall_page \<noteq> []"
    by (simp add: thrall_page_def)
  moreover have "characterName thrall_standalone \<noteq> [] \<and> serverName thrall_standalone \<noteq> []"
    by (simp add: thrall_standalone_def)
  ultimately show ?thesis
    by (rule loading_flag_released)
qed

section \<open>The request URL\<close>

lemma url_area52:
  "handleSearch_url (thrall_page\<lparr>serverName := ''Area 52''\<rparr>)
     = ''/api/v1/player/us/area%2052/thrall?version=SoD''"
  "standalone_url (thrall_standalone\<lparr>serverName := ''Area 52''\<rparr>)
     = ''/api/v1/player/us/area 52/thrall?version=SoD''"
  by code_simp+

lemma url_acdc:
  "handleSearch_url (thrall_page\<lparr>characterName := ''AC/DC''\<rparr>)
     = ''/api/v1/player/us/stormrage/ac%2Fdc?version=SoD''"
  "standalone_url (thrall_standalone\<lparr>characterName := ''AC/DC''\<rparr>)
     = ''/api/v1/player/us/stormrage/ac/dc?version=SoD''"
  by code_simp+

lemma url_stormrage:
  "handleSearch_url thrall_page = ''/api/v1/player/us/stormrage/thrall?version=SoD''"
  "standalone_url thrall_standalone = ''/api/v1/player/us/stormrage/thrall?version=SoD''"
  by code_simp+

text \<open>
  Claim C3 at its failing inputs. For the realm \<open>Area 52\<close>, \<^verbatim>\<open>handleSearch\<close> of
  \<^verbatim>\<open>SearchPage.tsx\<close> passes \<^verbatim>\<open>fetch\<close> a URL whose server segment is lower-cased only, with
  the space as it was typed; for the name \<open>AC/DC\<close> the slash stays and the name becomes
  two path segments. \<^verbatim>\<open>handleSearch\<close> of \<^verbatim>\<open>SearchPage/index.tsx\<close> passes the segments
  percent-encoded. For the query of the scenario both request
  \<^verbatim>\<open>/api/v1/player/us/stormrage/thrall?version=SoD\<close>.
\<close>

theorem standalone_url_not_encoded:
  "snd (standalone_submit (thrall_standalone\<lparr>serverName := ''Area 52''\<rparr>))
     = Some ''/api/v1/player/us/area 52/thrall?version=SoD''
   \<and> snd (standalone_submit (thrall_standalone\<lparr>characterName := ''AC/DC''\<rparr>))
     = Some ''/api/v1/player/us/stormrage/ac/dc?version=SoD''
   \<and> snd (handleSearch_submit (thrall_page\<lparr>serverName := ''Area 52''\<rparr>))
     = Some ''/api/v1/player/us/area%2052/thrall?version=SoD''
   \<and> snd (handleSearch_submit (thrall_page\<lparr>characterName := ''AC/DC''\<rparr>))
     = Some ''/api/v1/player/us/stormrage/ac%2Fdc?version=SoD''
   \<and> snd (handleSearch_submit thrall_page)
     = Some ''/api/v1/player/us/stormrage/thrall?version=SoD''
   \<and> snd (standalone_submit thrall_standalone)
     = Some ''/api/v1/player/us/stormrage/thrall?version=SoD''"
proof -
  have v: "characterName (thrall_standalone\<lparr>serverName := ''Area 52''\<rparr>) \<noteq> []"
    "serverName (thrall_standalone\<lparr>serverName := ''Area 52''\<rparr>) \<noteq> []"
    "characterName (thrall_page\<lparr>serverName := ''Area 52''\<rparr>) \<noteq> []"
    "serverName (thrall_page\<lparr>serverName := ''Area 52''\<rparr>) \<noteq> []"
    "characterName (thrall_standalone\<lparr>characterName := ''AC/DC''\<rparr>) \<noteq> []"
    "serverName (thrall_standalone\<lparr>characterName := ''AC/DC''\<rparr>) \<noteq> []"
    "characterName (thrall_page\<lparr>characterName := ''AC/DC''\<rparr>) \<noteq> []"
    "serverName (thrall_page\<lparr>characterName := ''AC/DC''\<rparr>) \<noteq> []"
    "characterName thrall_page \<noteq> []" "serverName thrall_page \<noteq> []"
    "characterName thrall_standalone \<noteq> []" "serverName thrall_standalone \<noteq> []"
    by (simp_all add: thrall_page_def thrall_standalone_def)
  show ?thesis
    by (simp only: handleSearch_submit_valid standalone_submit_valid v snd_conv url_area52
        url_acdc url_stormrage simp_thms)
qed

section \<open>Validation of the form\<close>

text \<open>
  Claim C4, as the code has it. For a query with an empty name or an empty server
  neither component calls \<^verbatim>\<open>fetch\<close>. \<^verbatim>\<open>SearchPage/index.tsx\<close> puts its message into the
  form's own \<^verbatim>\<open>localError\<close> and changes nothing else: the page's \<^verbatim>\<open>error\<close>, \<^verbatim>\<open>isLoading\<close>
  and \<^verbatim>\<open>searchResults\<close> stay, and no request is added. \<^verbatim>\<open>SearchPage.tsx\<close> has one error
  state, the one that also takes the errors of a request: it clears the result and puts
  its message there.
\<close>

theorem empty_field_no_request:
  assumes "characterName p = [] \<or> serverName p = []"
    and "characterName (ui w) = [] \<or> serverName (ui w) = []"
    and "characterName s = [] \<or> serverName s = []"
  shows "handleSearch_submit p = (p\<lparr>localError := ''Please fill in all required fields''\<rparr>, None)
       \<and> step rt Submit w
           = (if localLoading (ui w) then None
              else Some (w\<lparr>ui := (ui w)\<lparr>localError := ''Please fill in all required fields''\<rparr>\<rparr>))
       \<and> standalone_submit s
           = (s\<lparr>error := ''Please enter both name and server'', searchResults := JNull\<rparr>, None)"
  using assms by (auto simp add: handleSearch_submit_def standalone_submit_def)

theorem empty_field_no_request_witness:
  "handleSearch_submit empty_name_page
     = (empty_name_page\<lparr>localError := ''Please fill in all required fields''\<rparr>, None)
   \<and> error (fst (handleSearch_submit empty_name_page)) = error empty_name_page
   \<and> searchResults (fst (handleSearch_submit empty_name_page)) = jaina_result
   \<and> step sample_runtime Submit \<lparr>ui = empty_name_page, requests = [], inflight = []\<rparr>
       = Some \<lparr>ui = empty_name_page\<lparr>localError := ''Please fill in all required fields''\<rparr>,
               requests = [], inflight = []\<rparr>
   \<and> standalone_submit empty_name_standalone
       = (empty_name_standalone\<lparr>error := ''Please enter both name and server'',
            searchResults := JNull\<rparr>, None)"
proof -
  have a: "characterName empty_name_page = [] \<or> serverName empty_name_page = []"
    by (simp add: empty_name_page_def)
  have b: "characterName (ui \<lparr>ui = empty_name_page, requests = [], inflight = []\<rparr>) = []
      \<or> serverName (ui \<lparr>ui = empty_name_page, requests = [], inflight = []\<rparr>) = []"
    by (simp add: empty_name_page_def)
  have c: "characterName empty_name_standalone = [] \<or> serverName empty_name_standalone = []"
    by (simp add: empty_name_standalone_def)
  have d: "\<not> localLoading (ui \<lparr>ui = empty_name_page, requests = [], inflight = []\<rparr>)"
    by (simp add: empty_name_page_def thrall_page_def)
  from empty_field_no_request [OF a b c, of sample_runtime] d
  show ?thesis by (simp add: empty_name_page_def thrall_page_def)
qed

text \<open>
  The claim has the message leave the global error state alone. In \<^verbatim>\<open>SearchPage.tsx\<close>
  the error state was empty and a result was on display; after the submit with the name
  left empty the error state holds the message and the result is gone.
\<close>

theorem standalone_validation_counterexample:
  "error empty_name_standalone = []
   \<and> error (fst (standalone_submit empty_name_standalone)) = ''Please enter both name and server''
   \<and> searchResults empty_name_standalone = jaina_result
   \<and> searchResults (fst (standalone_submit empty_name_standalone)) = JNull"
  by (simp add: standalone_submit_def empty_name_standalone_def thrall_standalone_def)

section \<open>Responses with an error status\<close>

lemma handleSearch_settle_error_status:
  assumes "\<not> ok status" and "get_field data ''detail'' = Inr detail"
    and "js_toString rt (if truthy detail then detail else JStr ''Failed to fetch data'') = Inr message"
  shows "handleSearch_settle rt (Response status (BodyJson data)) p =
     p\<lparr>error := message, searchResults := JNull, isLoading := False, localLoading := False\<rparr>"
  using assms
  by (simp add: handleSearch_settle_def handleSearch_catch_def handleSearchComplete_def
      handleSearch_finally_def)

lemma standalone_settle_error_status:
  assumes "\<not> ok status" and "get_field data ''detail'' = Inr detail"
    and "js_toString rt (if truthy detail then detail else JStr ''Failed to fetch data'') = Inr message"
  shows "standalone_settle rt (Response status (BodyJson data)) s =
     s\<lparr>error := message, loading := False\<rparr>"
  using assms
  by (simp add: standalone_settle_def standalone_catch_def standalone_finally_def)

lemma handleSearch_settle_read_throws:
  assumes "\<not> ok status" and "get_field data ''detail'' = Inl (ErrorObject message)"
  shows "error (handleSearch_settle rt (Response status (BodyJson data)) p) = message"
  using assms
  by (simp add: handleSearch_settle_def handleSearch_catch_def handleSearchComplete_def
      handleSearch_finally_def)

lemma standalone_settle_read_throws:
  assumes "\<not> ok status" and "get_field data ''detail'' = Inl (ErrorObject message)"
  shows "error (standalone_settle rt (Response status (BodyJson data)) s) = message"
  using assms
  by (simp add: standalone_settle_def standalone_catch_def standalone_finally_def)

lemma handleSearch_settle_conversion_throws:
  assumes "\<not> ok status" and "get_field data ''detail'' = Inr detail" and "truthy detail"
    and "js_toString rt detail = Inl (ErrorObject message)"
  shows "error (handleSearch_settle rt (Response status (BodyJson data)) p) = message"
  using assms
  by (simp add: handleSearch_settle_def handleSearch_catch_def handleSearchComplete_def
      handleSearch_finally_def)

lemma standalone_settle_conversion_throws:
  assumes "\<not> ok status" and "get_field data ''detail'' = Inr detail" and "truthy detail"
    and "js_toString rt detail = Inl (ErrorObject message)"
  shows "error (standalone_settle rt (Response status (BodyJson data)) s) = message"
  using assms
  by (simp add: standalone_settle_def standalone_catch_def standalone_finally_def)

lemma settle_body_rejected:
  "error (handleSearch_settle rt (Response status (BodyRejected (ErrorObject message))) p) = message"
  "\<not> ok status \<Longrightarrow>
   error (standalone_settle rt (Response status (BodyRejected (ErrorObject message))) s) = message"
  by (simp_all add: handleSearch_settle_def handleSearch_catch_def handleSearchComplete_def
      handleSearch_finally_def standalone_settle_def standalone_catch_def standalone_finally_def)

lemma handleSearch_settle_failed_result:
  "\<not> ok status \<Longrightarrow> searchResults (handleSearch_settle rt (Response status b) p) = JNull"
  by (simp add: handleSearch_settle_def handleSearch_catch_def handleSearchComplete_def
      handleSearch_finally_def split: body.split sum.split)

lemma standalone_settle_failed_result:
  "\<not> ok status \<Longrightarrow>
   searchResults (standalone_settle rt (Response status b) s) = searchResults s"
  by (simp add: standalone_settle_def standalone_catch_def standalone_finally_def
      split: body.split sum.split)

lemma standalone_submit_result: "searchResults (fst (standalone_submit s)) = JNull"
  by (simp add: standalone_submit_def Let_def)

text \<open>
  Claim C5, as the code has it. For every response with a status outside 200 to 299 the
  result state is empty afterwards: \<^verbatim>\<open>SearchPage/index.tsx\<close> reports \<^verbatim>\<open>null\<close> to
  \<^verbatim>\<open>onSearchComplete\<close>, and \<^verbatim>\<open>SearchPage.tsx\<close> leaves the result as its submit has cleared
  it. The error state is set as follows. When the body parses and its \<^verbatim>\<open>detail\<close> can be
  read (the body is not \<^verbatim>\<open>null\<close>):
  \<^item> a \<^verbatim>\<open>detail\<close> that is a non-empty string becomes the error state, exactly;
  \<^item> with no \<^verbatim>\<open>detail\<close> member, or a falsy one (the empty string, \<^verbatim>\<open>null\<close>, \<^verbatim>\<open>false\<close>, 0),
    the error state becomes \<open>Failed to fetch data\<close>;
  \<^item> any other truthy \<^verbatim>\<open>detail\<close> (a number, \<^verbatim>\<open>true\<close>, an array, an object) becomes the
    error state by its string conversion, or by the message of the TypeError when it has
    none.
  When the body is \<^verbatim>\<open>null\<close>, the read of \<^verbatim>\<open>detail\<close> throws and the error state becomes the
  message of that TypeError; when the body does not parse, it becomes the message of the
  error that \<^verbatim>\<open>response.json()\<close> rejects with.
\<close>

theorem error_status_detail:
  assumes "\<not> ok status"
  shows "(get_field data ''detail'' = Inr (JStr d) \<and> d \<noteq> [] \<longrightarrow>
            error (handleSearch_settle rt (Response status (BodyJson data)) p) = d
          \<and> error (standalone_settle rt (Response status (BodyJson data)) s) = d)
       \<and> (get_field data ''detail'' = Inr v \<and> \<not> truthy v \<longrightarrow>
            error (handleSearch_settle rt (Response status (BodyJson data)) p) = ''Failed to fetch data''
          \<and> error (standalone_settle rt (Response status (BodyJson data)) s) = ''Failed to fetch data'')
       \<and> searchResults (handleSearch_settle rt (Response status b) p) = JNull
       \<and> searchResults (standalone_settle rt (Response status b) (fst (standalone_submit s'))) = JNull
       \<and> (get_field data ''detail'' = Inr v \<and> truthy v \<and> js_toString rt v = Inr m \<longrightarrow>
            error (handleSearch_settle rt (Response status (BodyJson data)) p) = m
          \<and> error (standalone_settle rt (Response status (BodyJson data)) s) = m)
       \<and> (get_field data ''detail'' = Inr v \<and> truthy v \<and> js_toString rt v = Inl (ErrorObject m) \<longrightarrow>
            error (handleSearch_settle rt (Response status (BodyJson data)) p) = m
          \<and> error (standalone_settle rt (Response status (BodyJson data)) s) = m)
       \<and> (get_field data ''detail'' = Inl (ErrorObject m) \<longrightarrow>
            error (handleSearch_settle rt (Response status (BodyJson data)) p) = m
          \<and> error (standalone_settle rt (Response status (BodyJson data)) s) = m)
       \<and> get_field JNull ''detail'' = Inl (cannot_read ''null'' ''detail'')
       \<and> (\<forall>x. x \<noteq> JNull \<and> x \<noteq> JUndefined \<longrightarrow> (\<exists>y. get_field x ''detail'' = Inr y))
       \<and> error (handleSearch_settle rt (Response status (BodyRejected (ErrorObject m))) p) = m
       \<and> error (standalone_settle rt (Response status (BodyRejected (ErrorObject m))) s) = m"
proof (intro conjI impI allI)
  assume h: "get_field data ''detail'' = Inr (JStr d) \<and> d \<noteq> []"
  then have "handleSearch_settle rt (Response status (BodyJson data)) p
      = p\<lparr>error := d, searchResults := JNull, isLoading := False, localLoading := False\<rparr>"
    using assms by (intro handleSearch_settle_error_status [where detail = "JStr d"]) simp_all
  then show "error (handleSearch_settle rt (Response status (BodyJson data)) p) = d"
    by simp
  from h have "standalone_settle rt (Response status (BodyJson data)) s
      = s\<lparr>error := d, loading := False\<rparr>"
    using assms by (intro standalone_settle_error_status [where detail = "JStr d"]) simp_all
  then show "error (standalone_settle rt (Response status (BodyJson data)) s) = d"
    by simp
next
  assume h: "get_field data ''detail'' = Inr v \<and> \<not> truthy v"
  then have "handleSearch_settle rt (Response status (BodyJson data)) p
      = p\<lparr>error := ''Failed to fetch data'', searchResults := JNull, isLoading := False,
           localLoading := False\<rparr>"
    using assms by (intro handleSearch_settle_error_status [where detail = v]) simp_all
  then show "error (handleSearch_settle rt (Response status (BodyJson data)) p) = ''Failed to fetch data''"
    by simp
  from h have "standalone_settle rt (Response status (BodyJson data)) s
      = s\<lparr>error := ''Failed to fetch data'', loading := False\<rparr>"
    using assms by (intro standalone_settle_error_status [where detail = v]) simp_all
  then show "error (standalone_settle rt (Response status (BodyJson data)) s) = ''Failed to fetch data''"
    by simp
next
  show "searchResults (handleSearch_settle rt (Response status b) p) = JNull"
    using assms by (rule handleSearch_settle_failed_result)
  show "searchResults (standalone_settle rt (Response status b) (fst (standalone_submit s'))) = JNull"
    using assms by (simp add: standalone_settle_failed_result standalone_submit_result)
next
  assume h: "get_field data ''detail'' = Inr v \<and> truthy v \<and> js_toString rt v = Inr m"
  then have "handleSearch_settle rt (Response status (BodyJson data)) p
      = p\<lparr>error := m, searchResults := JNull, isLoading := False, localLoading := False\<rparr>"
    using assms by (intro handleSearch_settle_error_status [where detail = v]) simp_all
  then show "error (handleSearch_settle rt (Response status (BodyJson data)) p) = m"
    by simp
  from h have "standalone_settle rt (Response status (BodyJson data)) s
      = s\<lparr>error := m, loading := False\<rparr>"
    using assms by (intro standalone_settle_error_status [where detail = v]) simp_all
  then show "error (standalone_settle rt (Response status (BodyJson data)) s) = m"
    by simp
next
  assume h: "get_field data ''detail'' = Inr v \<and> truthy v \<and> js_toString rt v = Inl (ErrorObject m)"
  then show "error (handleSearch_settle rt (Response status (BodyJson data)) p) = m"
    using assms by (intro handleSearch_settle_conversion_throws [where detail = v]) simp_all
  from h show "error (standalone_settle rt (Response status (BodyJson data)) s) = m"
    using assms by (intro standalone_settle_conversion_throws [where detail = v]) simp_all
next
  assume h: "get_field data ''detail'' = Inl (ErrorObject m)"
  then show "error (handleSearch_settle rt (Response status (BodyJson data)) p) = m"
    using assms by (intro handleSearch_settle_read_throws) simp_all
  from h show "error (standalone_settle rt (Response status (BodyJson data)) s) = m"
    using assms by (intro standalone_settle_read_throws) simp_all
next
  show "get_field JNull ''detail'' = Inl (cannot_read ''null'' ''detail'')" by simp
next
  fix x :: json
  assume "x \<noteq> JNull \<and> x \<noteq> JUndefined"
  then show "\<exists>y. get_field x ''detail'' = Inr y" by (cases x) simp_all
next
  show "error (handleSearch_settle rt (Response status (BodyRejected (ErrorObject m))) p) = m"
    by (rule settle_body_rejected(1))
  show "error (standalone_settle rt (Response status (BodyRejected (ErrorObject m))) s) = m"
    using assms by (rule settle_body_rejected(2))
qed

theorem error_status_detail_witness:
  "error (handleSearch_settle sample_runtime (Response 404 (BodyJson not_found))
            (fst (handleSearch_submit thrall_page))) = ''Character not found''
   \<and> searchResults (handleSearch_settle sample_runtime (Response 404 (BodyJson not_found))
            (fst (handleSearch_submit thrall_page))) = JNull
   \<and> error (standalone_settle sample_runtime (Response 404 (BodyJson not_found))
            (fst (standalone_submit thrall_standalone))) = ''Character not found''
   \<and> searchResults (standalone_settle sample_runtime (Response 404 (BodyJson not_found))
            (fst (standalone_submit thrall_standalone))) = JNull
   \<and> error (handleSearch_settle sample_runtime (Response 500 (BodyJson (JObj [])))
            (fst (handleSearch_submit thrall_page))) = ''Failed to fetch data''
   \<and> error (standalone_settle sample_runtime (Response 500 (BodyJson (JObj [])))
            (fst (standalone_submit thrall_standalone))) = ''Failed to fetch data''
   \<and> cannot_read ''null'' ''detail''
       = ErrorObject (error (handleSearch_settle sample_runtime (Response 404 (BodyJson JNull))
            (fst (handleSearch_submit thrall_page))))
   \<and> error (handleSearch_settle sample_runtime
            (Response 422 (BodyJson (JObj [(''detail'', JArr [JObj [(''msg'', JStr ''bad'')]])])))
            (fst (handleSearch_submit thrall_page))) = ''[object Object]''"
proof -
  have s: "\<not> ok 404" "\<not> ok 500" "\<not> ok 422" by (simp_all add: ok_def)
  have d: "get_field not_found ''detail'' = Inr (JStr ''Character not found'')
      \<and> ''Character not found'' \<noteq> []"
    by (simp add: not_found_def)
  have e: "get_field (JObj []) ''detail'' = Inr JUndefined \<and> \<not> truthy JUndefined"
    by simp
  have n: "get_field JNull ''detail''
      = Inl (ErrorObject (''Cannot read properties of null (reading '' @ [CHR 0x27] @ ''detail''
          @ [CHR 0x27] @ '')''))"
    by (simp add: cannot_read_def)
  have a: "get_field (JObj [(''detail'', JArr [JObj [(''msg'', JStr ''bad'')]])]) ''detail''
        = Inr (JArr [JObj [(''msg'', JStr ''bad'')]])
      \<and> truthy (JArr [JObj [(''msg'', JStr ''bad'')]])
      \<and> js_toString sample_runtime (JArr [JObj [(''msg'', JStr ''bad'')]]) = Inr ''[object Object]''"
    by simp
  have 1: "error (handleSearch_settle sample_runtime (Response 404 (BodyJson not_found))
            (fst (handleSearch_submit thrall_page))) = ''Character not found''"
    "error (standalone_settle sample_runtime (Response 404 (BodyJson not_found))
            (fst (standalone_submit thrall_standalone))) = ''Character not found''"
    using error_status_detail [OF s(1), where rt = sample_runtime and data = not_found
        and d = "''Character not found''"
        and p = "fst (handleSearch_submit thrall_page)"
        and s = "fst (standalone_submit thrall_standalone)"] d
    by blast+
  have 2: "searchResults (handleSearch_settle sample_runtime (Response 404 (BodyJson not_found))
            (fst (handleSearch_submit thrall_page))) = JNull"
    "searchResults (standalone_settle sample_runtime (Response 404 (BodyJson not_found))
            (fst (standalone_submit thrall_standalone))) = JNull"
    using error_status_detail [OF s(1), where rt = sample_runtime and b = "BodyJson not_found"
        and p = "fst (handleSearch_submit thrall_page)" and s' = thrall_standalone]
    by blast+
  have 3: "error (handleSearch_settle sample_runtime (Response 500 (BodyJson (JObj [])))
            (fst (handleSearch_submit thrall_page))) = ''Failed to fetch data''"
    "error (standalone_settle sample_runtime (Response 500 (BodyJson (JObj [])))
            (fst (standalone_submit thrall_standalone))) = ''Failed to fetch data''"
    using error_status_detail [OF s(2), where rt = sample_runtime and data = "JObj []"
        and v = JUndefined
        and p = "fst (handleSearch_submit thrall_page)"
        and s = "fst (standalone_submit thrall_standalone)"] e
    by blast+
  have 4: "error (handleSearch_settle sample_runtime (Response 404 (BodyJson JNull))
            (fst (handleSearch_submit thrall_page)))
       = ''Cannot read properties of null (reading '' @ [CHR 0x27] @ ''detail'' @ [CHR 0x27] @ '')''"
    using error_status_detail [OF s(1), where rt = sample_runtime and data = JNull
        and m = "''Cannot read properties of null (reading '' @ [CHR 0x27] @ ''detail''
          @ [CHR 0x27] @ '')''"
        and p = "fst (handleSearch_submit thrall_page)"] n
    by blast
  have 5: "error (handleSearch_settle sample_runtime
            (Response 422 (BodyJson (JObj [(''detail'', JArr [JObj [(''msg'', JStr ''bad'')]])])))
            (fst (handleSearch_submit thrall_page))) = ''[object Object]''"
    using error_status_detail [OF s(3), where rt = sample_runtime
        and data = "JObj [(''detail'', JArr [JObj [(''msg'', JStr ''bad'')]])]"
        and v = "JArr [JObj [(''msg'', JStr ''bad'')]]" and m = "''[object Object]''"
        and p = "fst (handleSearch_submit thrall_page)"] a
    by blast
  from 4 have 6: "cannot_read ''null'' ''detail''
       = ErrorObject (error (handleSearch_settle sample_runtime (Response 404 (BodyJson JNull))
            (fst (handleSearch_submit thrall_page))))"
    by (simp add: cannot_read_def)
  from 1 2 3 5 6 show ?thesis by blast
qed

text \<open>
  The claim has the error state take the \<^verbatim>\<open>detail\<close> member whenever it is present, as
  that string, and a generic message otherwise. A 404 with the body \<^verbatim>\<open>{"detail": ""}\<close>
  has the member, and the error state becomes \<open>Failed to fetch data\<close>, not the empty
  string: the code tests \<^verbatim>\<open>data.detail || 'Failed to fetch data'\<close>. A 502 whose body is
  not JSON has no member, and the error state becomes the message of the parser's
  exception. A 404 with the body \<^verbatim>\<open>null\<close> has no member either, and the error state
  becomes the message of the TypeError that the read of \<^verbatim>\<open>detail\<close> throws. A 422 whose
  \<^verbatim>\<open>detail\<close> is a list of objects gives the error state \<open>[object Object]\<close>.
\<close>

theorem error_status_counterexample:
  "get_field (JObj [(''detail'', JStr [])]) ''detail'' = Inr (JStr [])
   \<and> error (handleSearch_settle sample_runtime (Response 404 (BodyJson (JObj [(''detail'', JStr [])])))
        (fst (handleSearch_submit thrall_page))) = ''Failed to fetch data''
   \<and> error (handleSearch_settle sample_runtime
        (Response 502 (BodyRejected (ErrorObject ''Unexpected token < in JSON at position 0'')))
        (fst (handleSearch_submit thrall_page))) = ''Unexpected token < in JSON at position 0''
   \<and> error (handleSearch_settle sample_runtime (Response 404 (BodyJson JNull))
        (fst (handleSearch_submit thrall_page))) \<noteq> ''Failed to fetch data''
   \<and> error (standalone_settle sample_runtime (Response 404 (BodyJson JNull))
        (fst (standalone_submit thrall_standalone))) \<noteq> ''Failed to fetch data''
   \<and> error (handleSearch_settle sample_runtime
        (Response 422 (BodyJson (JObj [(''detail'', JArr [JObj [(''msg'', JStr ''bad'')]])])))
        (fst (handleSearch_submit thrall_page))) = ''[object Object]''"
  by (simp add: handleSearch_settle_def handleSearch_catch_def handleSearchComplete_def
      handleSearch_finally_def handleSearch_submit_def thrall_page_def ok_def
      standalone_settle_def standalone_catch_def standalone_finally_def standalone_submit_def
      thrall_standalone_def cannot_read_def)

section \<open>The start of a new search\<close>

lemma handleSearch_settle_rejected:
  "searchResults (handleSearch_settle rt (FetchRejected err) p) = JNull"
  "searchResults (handleSearch_settle rt (Response status (BodyRejected err)) p) = JNull"
  by (simp_all add: handleSearch_settle_def handleSearch_catch_def handleSearchComplete_def
      handleSearch_finally_def)

lemma handleSearch_settle_success:
  "ok status \<Longrightarrow>
   handleSearch_settle rt (Response status (BodyJson data)) p
     = p\<lparr>searchResults := data, isLoading := False, localLoading := False\<rparr>"
  by (simp add: handleSearch_settle_def handleSearchComplete_def handleSearch_finally_def)

text \<open>
  Claim C6, as the code has it. On a submit with a name and a server both components
  clear the error state before \<^verbatim>\<open>fetch\<close> is called. \<^verbatim>\<open>SearchPage.tsx\<close> clears the previous
  result there as well. \<^verbatim>\<open>SearchPage/index.tsx\<close> leaves the previous result in place while
  the request is in flight, and replaces it when the request has come to its result: by
  the parsed body after a response with a status from 200 to 299, and by \<^verbatim>\<open>null\<close> after
  every failure (a rejected \<^verbatim>\<open>fetch\<close>, a body that does not parse, any other status), in
  the step that sets the error.
\<close>

theorem new_search_clears:
  assumes "characterName p \<noteq> [] \<and> serverName p \<noteq> []"
    and "characterName s \<noteq> [] \<and> serverName s \<noteq> []"
  shows "error (fst (handleSearch_submit p)) = []
       \<and> searchResults (fst (handleSearch_submit p)) = searchResults p
       \<and> searchResults (handleSearch_settle rt (FetchRejected err) p') = JNull
       \<and> searchResults (handleSearch_settle rt (Response status (BodyRejected err)) p') = JNull
       \<and> (\<not> ok status \<longrightarrow>
            searchResults (handleSearch_settle rt (Response status (BodyJson data)) p') = JNull)
       \<and> (ok status \<longrightarrow>
            searchResults (handleSearch_settle rt (Response status (BodyJson data)) p') = data
          \<and> error (handleSearch_settle rt (Response status (BodyJson data)) p') = error p')
       \<and> error (fst (standalone_submit s)) = []
       \<and> searchResults (fst (standalone_submit s)) = JNull"
  using assms
  by (simp add: handleSearch_submit_valid standalone_submit_valid handleSearch_settle_rejected
      handleSearch_settle_failed_result handleSearch_settle_success)

theorem new_search_clears_witness:
  "error (fst (handleSearch_submit (thrall_page\<lparr>error := ''Character not found''\<rparr>))) = []
   \<and> searchResults (fst (handleSearch_submit (thrall_page\<lparr>searchResults := jaina_result\<rparr>)))
       = jaina_result
   \<and> searchResults (handleSearch_settle sample_runtime (Response 404 (BodyJson not_found))
        (fst (handleSearch_submit (thrall_page\<lparr>searchResults := jaina_result\<rparr>)))) = JNull
   \<and> searchResults (handleSearch_settle sample_runtime (Response 200 (BodyJson thrall_result))
        (fst (handleSearch_submit (thrall_page\<lparr>searchResults := jaina_result\<rparr>)))) = thrall_result
   \<and> error (fst (standalone_submit (thrall_standalone\<lparr>error := ''Character not found''\<rparr>))) = []
   \<and> searchResults (fst (standalone_submit (thrall_standalone\<lparr>searchResults := jaina_result\<rparr>)))
       = JNull"
proof -
  have a: "characterName (thrall_page\<lparr>error := ''Character not found''\<rparr>) \<noteq> []
      \<and> serverName (thrall_page\<lparr>error := ''Character not found''\<rparr>) \<noteq> []"
    and b: "characterName (thrall_page\<lparr>searchResults := jaina_result\<rparr>) \<noteq> []
      \<and> serverName (thrall_page\<lparr>searchResults := jaina_result\<rparr>) \<noteq> []"
    by (simp_all add: thrall_page_def)
  have c: "characterName (thrall_standalone\<lparr>error := ''Character not found''\<rparr>) \<noteq> []
      \<and> serverName (thrall_standalone\<lparr>error := ''Character not found''\<rparr>) \<noteq> []"
    and d: "characterName (thrall_standalone\<lparr>searchResults := jaina_result\<rparr>) \<noteq> []
      \<and> serverName (thrall_standalone\<lparr>searchResults := jaina_result\<rparr>) \<noteq> []"
    by (simp_all add: thrall_standalone_def)
  have s: "\<not> ok 404" "ok 200" by (simp_all add: ok_def)
  from new_search_clears [OF a c]
    new_search_clears [OF b d, of sample_runtime _
      "fst (handleSearch_submit (thrall_page\<lparr>searchResults := jaina_result\<rparr>))" 404 not_found]
    new_search_clears [OF b d, of sample_runtime _
      "fst (handleSearch_submit (thrall_page\<lparr>searchResults := jaina_result\<rparr>))" 200 thrall_result]
    s
  show ?thesis by simp
qed

text \<open>
  The claim has the previous result cleared before the fetch. In
  \<^verbatim>\<open>SearchPage/index.tsx\<close> the synchronous part of a submit calls \<^verbatim>\<open>setError('')\<close> and not
  \<^verbatim>\<open>onSearchComplete\<close>: with the result of a search for Jaina on display, a submit for
  Thrall issues its request and the result state still holds Jaina's.
\<close>

theorem previous_result_kept_counterexample:
  "snd (handleSearch_submit (thrall_page\<lparr>searchResults := jaina_result\<rparr>)) \<noteq> None
   \<and> searchResults (fst (handleSearch_submit (thrall_page\<lparr>searchResults := jaina_result\<rparr>)))
       = jaina_result
   \<and> jaina_result \<noteq> JNull"
  by (simp add: handleSearch_submit_def thrall_page_def jaina_result_def)

section \<open>Searches in flight\<close>

lemma step_one_at_a_time:
  assumes "one_at_a_time w" and "step rt e w = Some w'"
  shows "one_at_a_time w'"
proof (cases e)
  case Submit
  with assms show ?thesis
    by (auto simp: one_at_a_time_def handleSearch_submit_def split: if_splits)
next
  case (Settle i r)
  with assms have i: "i \<in> set (inflight w)"
    and w': "w' = w\<lparr>ui := handleSearch_settle rt r (ui w), inflight := removeAll i (inflight w)\<rparr>"
    by (auto split: if_splits)
  from assms(1) i have "inflight w = [i]"
    by (cases "inflight w") (auto simp: one_at_a_time_def)
  then show ?thesis
    by (simp add: w' one_at_a_time_def handleSearch_settle_flags)
qed (use assms in \<open>auto simp: one_at_a_time_def\<close>)

lemma run_one_at_a_time:
  "one_at_a_time w \<Longrightarrow> run rt es w = Some w' \<Longrightarrow> one_at_a_time w'"
proof (induction es arbitrary: w)
  case Nil
  then show ?case by simp
next
  case (Cons e es)
  then obtain w1 where s: "step rt e w = Some w1" and r: "run rt es w1 = Some w'"
    by (auto split: option.splits)
  from Cons.prems(1) s have "one_at_a_time w1" by (rule step_one_at_a_time)
  then show ?case using r by (rule Cons.IH)
qed

lemma standalone_step_one_at_a_time:
  assumes "standalone_one_at_a_time w" and "standalone_step rt e w = Some w'"
  shows "standalone_one_at_a_time w'"
proof (cases e)
  case Submit
  with assms show ?thesis
    by (auto simp: standalone_one_at_a_time_def standalone_submit_def Let_def split: if_splits)
next
  case (Settle i r)
  with assms have i: "i \<in> set (standalone_inflight w)"
    and w': "w' = w\<lparr>standalone_ui := standalone_settle rt r (standalone_ui w),
                     standalone_inflight := removeAll i (standalone_inflight w)\<rparr>"
    by (auto split: if_splits)
  from assms(1) i have "standalone_inflight w = [i]"
    by (cases "standalone_inflight w") (auto simp: standalone_one_at_a_time_def)
  then show ?thesis
    by (simp add: w' standalone_one_at_a_time_def standalone_settle_flag)
qed (use assms in \<open>auto simp: standalone_one_at_a_time_def\<close>)

lemma standalone_run_one_at_a_time:
  "standalone_one_at_a_time w \<Longrightarrow> standalone_run rt es w = Some w' \<Longrightarrow>
   standalone_one_at_a_time w'"
proof (induction es arbitrary: w)
  case Nil
  then show ?case by simp
next
  case (Cons e es)
  then obtain w1 where s: "standalone_step rt e w = Some w1"
    and r: "standalone_run rt es w1 = Some w'"
    by (auto split: option.splits)
  from Cons.prems(1) s have "standalone_one_at_a_time w1" by (rule standalone_step_one_at_a_time)
  then show ?case using r by (rule Cons.IH)
qed

lemma standalone_settle_success:
  "ok status \<Longrightarrow>
   standalone_settle rt (Response status (BodyJson data)) s
     = s\<lparr>searchResults := data, loading := False\<rparr>"
  by (simp add: standalone_settle_def standalone_finally_def)

text \<open>
  Claim C9, as the code has it. \<^verbatim>\<open>handleSearch\<close> has no cancellation and no test of which
  request a response belongs to: whenever a response with a status from 200 to 299
  arrives, its body replaces the result state. Two submits cannot overlap, though. The
  submit button is disabled from a submit that issues a request until that request has
  come to its result (\<^verbatim>\<open>disabled={localLoading}\<close> in \<^verbatim>\<open>SearchPage/index.tsx\<close>,
  \<^verbatim>\<open>disabled={loading}\<close> in \<^verbatim>\<open>SearchPage.tsx\<close>): in every state that the events reach from a
  page with nothing in flight, at most one request is in flight, the loading flag is set
  exactly while one is, and no submit is possible while one is. The responses arrive in
  the order of the submits, and the result on display is that of the last submit that has
  completed.
\<close>

theorem one_request_in_flight:
  assumes "one_at_a_time w \<and> run rt es w = Some w'"
    and "standalone_one_at_a_time v \<and> standalone_run rt es' v = Some v'"
  shows "length (inflight w') \<le> 1
       \<and> (localLoading (ui w') = (inflight w' \<noteq> []))
       \<and> (inflight w' \<noteq> [] \<longrightarrow> step rt Submit w' = None)
       \<and> (ok status \<and> i \<in> set (inflight w') \<longrightarrow>
            map_option (\<lambda>x. (searchResults (ui x), inflight x))
              (step rt (Settle i (Response status (BodyJson data))) w') = Some (data, []))
       \<and> length (standalone_inflight v') \<le> 1
       \<and> (loading (standalone_ui v') = (standalone_inflight v' \<noteq> []))
       \<and> (standalone_inflight v' \<noteq> [] \<longrightarrow> standalone_step rt Submit v' = None)
       \<and> (ok status \<and> i \<in> set (standalone_inflight v') \<longrightarrow>
            map_option (\<lambda>x. (searchResults (standalone_ui x), standalone_inflight x))
              (standalone_step rt (Settle i (Response status (BodyJson data))) v') = Some (data, []))"
proof -
  from assms(1) have a: "one_at_a_time w'" using run_one_at_a_time by blast
  from assms(2) have b: "standalone_one_at_a_time v'" using standalone_run_one_at_a_time by blast
  have 1: "length (inflight w') \<le> 1" "localLoading (ui w') = (inflight w' \<noteq> [])"
    using a by (simp_all add: one_at_a_time_def)
  have 2: "length (standalone_inflight v') \<le> 1"
    "loading (standalone_ui v') = (standalone_inflight v' \<noteq> [])"
    using b by (simp_all add: standalone_one_at_a_time_def)
  have 3: "inflight w' \<noteq> [] \<longrightarrow> step rt Submit w' = None"
    using 1(2) by simp
  have 4: "standalone_inflight v' \<noteq> [] \<longrightarrow> standalone_step rt Submit v' = None"
    using 2(2) by simp
  have 5: "ok status \<and> i \<in> set (inflight w') \<longrightarrow>
      map_option (\<lambda>x. (searchResults (ui x), inflight x))
        (step rt (Settle i (Response status (BodyJson data))) w') = Some (data, [])"
  proof
    assume h: "ok status \<and> i \<in> set (inflight w')"
    with 1(1) have "inflight w' = [i]" by (cases "inflight w'") auto
    with h show "map_option (\<lambda>x. (searchResults (ui x), inflight x))
        (step rt (Settle i (Response status (BodyJson data))) w') = Some (data, [])"
      by (simp add: handleSearch_settle_success)
  qed
  have 6: "ok status \<and> i \<in> set (standalone_inflight v') \<longrightarrow>
      map_option (\<lambda>x. (searchResults (standalone_ui x), standalone_inflight x))
        (standalone_step rt (Settle i (Response status (BodyJson data))) v') = Some (data, [])"
  proof
    assume h: "ok status \<and> i \<in> set (standalone_inflight v')"
    with 2(1) have "standalone_inflight v' = [i]" by (cases "standalone_inflight v'") auto
    with h show "map_option (\<lambda>x. (searchResults (standalone_ui x), standalone_inflight x))
        (standalone_step rt (Settle i (Response status (BodyJson data))) v') = Some (data, [])"
      by (simp add: standalone_settle_success)
  qed
  from 1 2 3 4 5 6 show ?thesis by blast
qed

lemma sample_runs:
  "one_at_a_time thrall_world"
  "standalone_one_at_a_time thrall_standalone_world"
  "run sample_runtime [Submit] thrall_world
     = Some \<lparr>ui = thrall_page\<lparr>isLoading := True, localLoading := True\<rparr>,
             requests = [''/api/v1/player/us/stormrage/thrall?version=SoD''], inflight = [0]\<rparr>"
  "standalone_run sample_runtime [Submit] thrall_standalone_world
     = Some \<lparr>standalone_ui = thrall_standalone\<lparr>loading := True\<rparr>,
             standalone_requests = [''/api/v1/player/us/stormrage/thrall?version=SoD''],
             standalone_inflight = [0]\<rparr>"
  "ok 200"
  by (simp_all add: one_at_a_time_def standalone_one_at_a_time_def thrall_world_def
      thrall_standalone_world_def thrall_page_def thrall_standalone_def handleSearch_submit_def
      standalone_submit_def ok_def url_stormrage [unfolded thrall_page_def thrall_standalone_def])

theorem one_request_in_flight_witness:
  "step sample_runtime Submit
       \<lparr>ui = thrall_page\<lparr>isLoading := True, localLoading := True\<rparr>,
        requests = [''/api/v1/player/us/stormrage/thrall?version=SoD''], inflight = [0]\<rparr> = None
   \<and> map_option (\<lambda>x. (searchResults (ui x), inflight x))
        (step sample_runtime (Settle 0 (Response 200 (BodyJson thrall_result)))
           \<lparr>ui = thrall_page\<lparr>isLoading := True, localLoading := True\<rparr>,
            requests = [''/api/v1/player/us/stormrage/thrall?version=SoD''], inflight = [0]\<rparr>)
       = Some (thrall_result, [])
   \<and> standalone_step sample_runtime Submit
       \<lparr>standalone_ui = thrall_standalone\<lparr>loading := True\<rparr>,
        standalone_requests = [''/api/v1/player/us/stormrage/thrall?version=SoD''],
        standalone_inflight = [0]\<rparr> = None
   \<and> map_option (\<lambda>x. (searchResults (standalone_ui x), standalone_inflight x))
        (standalone_step sample_runtime (Settle 0 (Response 200 (BodyJson thrall_result)))
           \<lparr>standalone_ui = thrall_standalone\<lparr>loading := True\<rparr>,
            standalone_requests = [''/api/v1/player/us/stormrage/thrall?version=SoD''],
            standalone_inflight = [0]\<rparr>)
       = Some (thrall_result, [])"
proof -
  have a: "one_at_a_time thrall_world \<and> run sample_runtime [Submit] thrall_world
     = Some \<lparr>ui = thrall_page\<lparr>isLoading := True, localLoading := True\<rparr>,
             requests = [''/api/v1/player/us/stormrage/thrall?version=SoD''], inflight = [0]\<rparr>"
    using sample_runs(1,3) by blast
  have b: "standalone_one_at_a_time thrall_standalone_world
     \<and> standalone_run sample_runtime [Submit] thrall_standalone_world
     = Some \<lparr>standalone_ui = thrall_standalone\<lparr>loading := True\<rparr>,
             standalone_requests = [''/api/v1/player/us/stormrage/thrall?version=SoD''],
             standalone_inflight = [0]\<rparr>"
    using sample_runs(2,4) by blast
  from one_request_in_flight [OF a b, of 200 0 thrall_result] sample_runs(5)
  show ?thesis by simp
qed

text \<open>
  The claim has two submits overlap and their responses arrive in either order. With
  the request of a first submit in flight, the form cannot be submitted again: the run
  that submits for Thrall, changes the name and submits for Jaina does not exist, in
  either component.
\<close>

theorem overlapping_submits_counterexample:
  "run sample_runtime [Submit, SetCharacterName ''Jaina'', Submit] thrall_world = None
   \<and> map_option (\<lambda>x. (localLoading (ui x), inflight x))
        (run sample_runtime [Submit, SetCharacterName ''Jaina''] thrall_world) = Some (True, [0])
   \<and> standalone_run sample_runtime [Submit, SetCharacterName ''Jaina'', Submit]
        thrall_standalone_world = None
   \<and> map_option (\<lambda>x. (loading (standalone_ui x), standalone_inflight x))
        (standalone_run sample_runtime [Submit, SetCharacterName ''Jaina'']
           thrall_standalone_world) = Some (True, [0])"
  by (simp add: thrall_world_def thrall_standalone_world_def thrall_page_def
      thrall_standalone_def handleSearch_submit_def standalone_submit_def)

section \<open>The Cooldown Efficiency card\<close>












end
